theory Spec2Isabelle
  imports Main
begin

section \<open>MK Processor: bootstrap sequence and update flow of main.py\<close>

text \<open>
  The entry point main.py is a sequence of calls into collaborators that are not part of
  the file: the configuration store, the exception reporter, the plugin manager, the
  shell window, the Updater, the file system and the GUI toolkit. The model makes every
  such call explicit:
  \<^item> a call that may fail asks the \<open>world\<close> for its outcome and is recorded, as an event,
    together with that outcome;
  \<^item> a call of the GUI toolkit that only displays or arranges something is recorded as
    an event;
  \<^item> a Python exception is the left summand of the result, so that every point where an
    exception can pass through the code is a branch of the model.

  Left out, as nothing below depends on them: the extension of \<open>sys.path\<close> at the top of
  the module, and the sizes and layout of the widgets.
\<close>

subsection \<open>Python values and exceptions\<close>

datatype pyval =
    PNone
  | PBool bool
  | PInt int
  | PStr string
  | PObj string
  | PDict "(string \<times> pyval) list"

text \<open>Python's truth value of an object, as \<open>if x:\<close> and \<open>if not x:\<close> test it.\<close>

fun truthy :: "pyval \<Rightarrow> bool" where
  "truthy PNone = False"
| "truthy (PBool b) = b"
| "truthy (PInt i) = (i \<noteq> 0)"
| "truthy (PStr s) = (s \<noteq> [])"
| "truthy (PObj n) = True"
| "truthy (PDict kvs) = (kvs \<noteq> [])"

text \<open>
  \<open>Exception m\<close> is an instance of Python's \<open>Exception\<close> whose \<open>str()\<close> is \<open>m\<close>: what
  \<open>except Exception:\<close> catches. \<open>SystemExit n\<close> is what \<open>sys.exit(n)\<close> raises; it is not an
  \<open>Exception\<close>, and only a bare \<open>except:\<close> catches it.
\<close>

datatype exc = Exception string | SystemExit int

text \<open>
  What a call into a collaborator does: it raises an \<open>Exception\<close> with the given message,
  or it returns a value. A collaborator that raises something else (KeyboardInterrupt, a
  \<open>SystemExit\<close> of its own) is outside the model.
\<close>

datatype 'a outcome = Raises string | Returns 'a

subsection \<open>Calls, events, the world and the state\<close>

text \<open>
  The calls whose failure the code or the specification reckons with. An Updater is
  identified by the arguments of its constructor.
\<close>

datatype call =
    ImportPyQt5
  | ImportModules
  | SetupExceptionHandling
  | Makedirs string
  | PluginManagerNew
  | LoadPlugins pyval
  | MainWindowNew pyval
  | UpdaterNew "pyval list"
  | UpdaterCheck "pyval list"
  | UpdaterDownload "pyval list"
  | UpdaterInstall "pyval list" pyval
  | CriticalDialog string string

text \<open>An f-string, kept as its literal pieces and the values interpolated between them.\<close>

datatype fpart = Lit string | Interp pyval

datatype user_action = ClickLater | ClickUpdateNow | CloseDialog

text \<open>
  The only closure the program hands to the event loop:
  \<open>lambda: show_update_dialog(window, update_info)\<close>, with the two values it captures.
\<close>

datatype callback = ShowUpdateDialog pyval pyval

datatype event =
    Call call "pyval outcome"
  | ConfigGet string string pyval pyval
  | Print string
  | PrintTraceback
  | QApplicationNew
  | SetApplicationName string
  | SetApplicationVersion string
  | MessageBoxWarning pyval string string
  | SetWindowIcon string
  | WindowShow pyval
  | SingleShot nat callback
  | TimerFired callback
  | DialogNew pyval string
  | AddLabel "fpart list"
  | SetPlainText pyval
  | AddButtons
  | DialogExec user_action
  | DialogReject
  | DialogAccept
  | Excepthook exc
  | AppExec int

text \<open>
  The world fixes everything the program cannot decide. The configuration may change
  while the program runs: \<open>config_at w n\<close> is the store as the \<open>n\<close>-th read finds it.
\<close>

record world =
  is_main :: bool
  pyqt5_in_sys_modules :: bool
  respond :: "call \<Rightarrow> pyval outcome"
  config_at :: "nat \<Rightarrow> string \<times> string \<Rightarrow> pyval option"
  expanduser :: "string \<Rightarrow> string"
  path_exists :: "string \<Rightarrow> bool"
  icon_path :: string
  user_choice :: user_action
  timer_elapses :: bool
  exec_rc :: int

text \<open>
  What the program itself changes: the count of configuration reads made so far, and the
  one-shot timers handed to the event loop and not yet fired.
\<close>

record state =
  reads :: nat
  timers :: "(nat \<times> callback) list"

text \<open>
  A piece of program takes the state and yields the events it caused, in order, the new
  state, and either the exception that left it or its value.
\<close>

type_synonym 'a prog = "state \<Rightarrow> event list \<times> state \<times> (exc + 'a)"

definition events :: "'a prog \<Rightarrow> state \<Rightarrow> event list" where
  "events m s = fst (m s)"

definition final :: "'a prog \<Rightarrow> state \<Rightarrow> state" where
  "final m s = fst (snd (m s))"

definition result :: "'a prog \<Rightarrow> state \<Rightarrow> exc + 'a" where
  "result m s = snd (snd (m s))"

definition ret :: "'a \<Rightarrow> 'a prog" where
  "ret x s = ([], s, Inr x)"

definition throw :: "exc \<Rightarrow> 'a prog" where
  "throw e s = ([], s, Inl e)"

definition bnd :: "'a prog \<Rightarrow> ('a \<Rightarrow> 'b prog) \<Rightarrow> 'b prog" where
  "bnd m f s =
     (case m s of
        (es, s', Inl e) \<Rightarrow> (es, s', Inl e)
      | (es, s', Inr x) \<Rightarrow> (case f x s' of (es', s'', r) \<Rightarrow> (es @ es', s'', r)))"

definition emit :: "event \<Rightarrow> unit prog" where
  "emit e s = ([e], s, Inr ())"

definition call :: "world \<Rightarrow> call \<Rightarrow> pyval prog" where
  "call w c s =
     ([Call c (respond w c)], s,
      case respond w c of Raises m \<Rightarrow> Inl (Exception m) | Returns v \<Rightarrow> Inr v)"

text \<open>
  Modelled from the spec: app.config is not in the source file. Its contract is
  \<open>get(section, key, default)\<close>, which never fails and yields the default for a missing key.
  \<open>lookup w n\<close> is that lookup in the store the \<open>n\<close>-th read finds.
\<close>

definition lookup :: "world \<Rightarrow> nat \<Rightarrow> string \<Rightarrow> string \<Rightarrow> pyval \<Rightarrow> pyval" where
  "lookup w n section key dflt =
     (case config_at w n (section, key) of None \<Rightarrow> dflt | Some x \<Rightarrow> x)"

definition config_get :: "world \<Rightarrow> string \<Rightarrow> string \<Rightarrow> pyval \<Rightarrow> pyval prog" where
  "config_get w section key dflt s =
     ([ConfigGet section key dflt (lookup w (reads s) section key dflt)],
      s\<lparr>reads := Suc (reads s)\<rparr>,
      Inr (lookup w (reads s) section key dflt))"

text \<open>\<open>try: m except Exception: h\<close>, where the handler reads \<open>str(e)\<close>.\<close>

definition try_except :: "'a prog \<Rightarrow> (string \<Rightarrow> 'a prog) \<Rightarrow> 'a prog" where
  "try_except m h s =
     (case m s of
        (es, s', Inl (Exception msg)) \<Rightarrow>
          (case h msg s' of (es', s'', r) \<Rightarrow> (es @ es', s'', r))
      | (es, s', Inl (SystemExit n)) \<Rightarrow> (es, s', Inl (SystemExit n))
      | (es, s', Inr x) \<Rightarrow> (es, s', Inr x))"

text \<open>\<open>try: m except: h\<close>, the bare handler that catches everything.\<close>

definition try_except_all :: "'a prog \<Rightarrow> (exc \<Rightarrow> 'a prog) \<Rightarrow> 'a prog" where
  "try_except_all m h s =
     (case m s of
        (es, s', Inl e) \<Rightarrow> (case h e s' of (es', s'', r) \<Rightarrow> (es @ es', s'', r))
      | (es, s', Inr x) \<Rightarrow> (es, s', Inr x))"

definition sys_exit :: "int \<Rightarrow> 'a prog" where
  "sys_exit n = throw (SystemExit n)"

text \<open>The name of a value's type, as Python's error messages print it.\<close>

fun type_name :: "pyval \<Rightarrow> string" where
  "type_name PNone = ''NoneType''"
| "type_name (PBool b) = ''bool''"
| "type_name (PInt i) = ''int''"
| "type_name (PStr s) = ''str''"
| "type_name (PObj n) = n"
| "type_name (PDict kvs) = ''dict''"

text \<open>
  \<open>obj.get(key, default)\<close>: the lookup of a dict. Any other value of the model has no
  method \<open>get\<close>, and Python raises AttributeError.
\<close>

definition py_get :: "pyval \<Rightarrow> string \<Rightarrow> pyval \<Rightarrow> pyval prog" where
  "py_get obj key dflt =
     (case obj of
        PDict kvs \<Rightarrow> ret (case map_of kvs key of None \<Rightarrow> dflt | Some v \<Rightarrow> v)
      | _ \<Rightarrow> throw (Exception ([CHR 0x27] @ type_name obj @ [CHR 0x27] @
                              '' object has no attribute '' @
                              [CHR 0x27] @ ''get'' @ [CHR 0x27])))"

text \<open>\<open>os.path.expanduser(p)\<close>: defined on a string, TypeError on anything else.\<close>

definition py_expanduser :: "world \<Rightarrow> pyval \<Rightarrow> string prog" where
  "py_expanduser w v =
     (case v of
        PStr p \<Rightarrow> ret (expanduser w p)
      | _ \<Rightarrow> throw (Exception (''expected str, bytes or os.PathLike object, not '' @
                              type_name v)))"

text \<open>
  \<open>QTimer.singleShot(ms, cb)\<close> hands the closure to the event loop, which keeps it until
  \<open>app.exec_()\<close> runs.
\<close>

definition single_shot :: "nat \<Rightarrow> callback \<Rightarrow> unit prog" where
  "single_shot ms cb s =
     ([SingleShot ms cb], s\<lparr>timers := timers s @ [(ms, cb)]\<rparr>, Inr ())"

text \<open>
  Modelled from the spec: app.utils.error_handling is not in the source file. The
  Exception Reporter that \<open>setup_exception_handling\<close> installs intercepts a failure that
  escapes a callback run by the event loop (a slot or a timer) and renders it; the loop
  goes on.
\<close>

definition slot :: "unit prog \<Rightarrow> unit prog" where
  "slot m = try_except_all m (\<lambda>e. emit (Excepthook e))"

subsection \<open>check_for_updates\<close>

definition check_for_updates :: "world \<Rightarrow> pyval prog" where
  "check_for_updates w =
     bnd (config_get w ''app'' ''check_updates'' (PBool True)) (\<lambda>toggle.
     if \<not> truthy toggle then ret (PBool False)
     else
       bnd (config_get w ''app'' ''version'' (PStr ''3.0.6'')) (\<lambda>current_version.
       bnd (config_get w ''app'' ''update_url''
              (PStr ''https://example.com/updates/mk_processor.json'')) (\<lambda>update_url.
       bnd (call w (UpdaterNew [current_version, update_url])) (\<lambda>updater.
       bnd (call w (UpdaterCheck [current_version, update_url])) (\<lambda>update_info.
       if truthy update_info then ret update_info else ret (PBool False))))))"

subsection \<open>show_update_dialog and its inner start_update\<close>

definition start_update :: "world \<Rightarrow> pyval \<Rightarrow> unit prog" where
  "start_update w parent =
     bnd (emit DialogAccept) (\<lambda>_.
     bnd (config_get w ''app'' ''version'' (PStr ''3.0.6'')) (\<lambda>version.
     bnd (call w (UpdaterNew [version])) (\<lambda>updater.
     bnd (call w (UpdaterDownload [version])) (\<lambda>update_file.
     if truthy update_file then
       bnd (call w (UpdaterInstall [version] update_file)) (\<lambda>result.
       if \<not> truthy result then
         emit (MessageBoxWarning parent ''Update Failed''
                 ''Failed to install the update. Please try again later.'')
       else ret ())
     else ret ()))))"

text \<open>
  \<open>dialog.exec_()\<close> blocks until the user has answered: "Later" and closing the dialog
  reject it, "Update Now" runs the slot \<open>start_update\<close>.
\<close>

definition show_update_dialog :: "world \<Rightarrow> pyval \<Rightarrow> pyval \<Rightarrow> unit prog" where
  "show_update_dialog w parent update_info =
     bnd (emit (DialogNew parent ''Update Available'')) (\<lambda>_.
     bnd (py_get update_info ''version'' PNone) (\<lambda>new_version.
     bnd (emit (AddLabel [Lit ''<h3>MK Processor '', Interp new_version,
                          Lit '' is available!</h3>''])) (\<lambda>_.
     bnd (config_get w ''app'' ''version'' (PStr ''3.0.6'')) (\<lambda>current_version.
     bnd (emit (AddLabel [Lit ''You are currently using version '',
                          Interp current_version])) (\<lambda>_.
     bnd (emit (AddLabel [Lit ''<b>Release Notes:</b>''])) (\<lambda>_.
     bnd (py_get update_info ''release_notes'' (PStr ''No release notes available.'')) (\<lambda>notes.
     bnd (emit (SetPlainText notes)) (\<lambda>_.
     bnd (emit AddButtons) (\<lambda>_.
     bnd (emit (DialogExec (user_choice w))) (\<lambda>_.
     case user_choice w of
       ClickLater \<Rightarrow> emit DialogReject
     | CloseDialog \<Rightarrow> emit DialogReject
     | ClickUpdateNow \<Rightarrow> slot (start_update w parent)))))))))))"

subsection \<open>The event loop\<close>

fun run_callback :: "world \<Rightarrow> callback \<Rightarrow> unit prog" where
  "run_callback w (ShowUpdateDialog window update_info) =
     show_update_dialog w window update_info"

fun fire_timers :: "world \<Rightarrow> (nat \<times> callback) list \<Rightarrow> unit prog" where
  "fire_timers w [] = ret ()"
| "fire_timers w ((ms, cb) # ts) =
     bnd (emit (TimerFired cb)) (\<lambda>_.
     bnd (slot (run_callback w cb)) (\<lambda>_.
     fire_timers w ts))"

text \<open>
  \<open>app.exec_()\<close>: the loop runs until the application quits and returns the exit code.
  A one-shot timer fires once, provided the loop is still running when its delay has
  passed (\<open>timer_elapses\<close>); the user may quit before.
\<close>

definition app_exec :: "world \<Rightarrow> int prog" where
  "app_exec w s =
     bnd (if timer_elapses w then fire_timers w (timers s) else ret ()) (\<lambda>_.
     bnd (emit (AppExec (exec_rc w))) (\<lambda>_.
     ret (exec_rc w))) (s\<lparr>timers := []\<rparr>)"

subsection \<open>main\<close>

definition directory_warning :: "string \<Rightarrow> string \<Rightarrow> string" where
  "directory_warning web_folder msg =
     ''Could not create web folder at '' @ web_folder @ ''.\<newline>\<newline>'' @
     ''Error: '' @ msg @ ''\<newline>\<newline>'' @
     ''The application will continue, but functionality may be limited.''"

text \<open>
  The first part of \<open>main\<close>, from the creation of the QApplication to \<open>window.show()\<close>;
  it yields the window.
\<close>

definition bootstrap :: "world \<Rightarrow> pyval prog" where
  "bootstrap w =
     bnd (emit QApplicationNew) (\<lambda>_.
     bnd (emit (SetApplicationName ''MK Processor'')) (\<lambda>_.
     bnd (emit (SetApplicationVersion ''3.0.6'')) (\<lambda>_.
     bnd (call w SetupExceptionHandling) (\<lambda>_.
     bnd (config_get w ''google_drive'' ''web_folder''
            (PStr ''~/GoogleDriveMount/Web/'')) (\<lambda>configured.
     bnd (py_expanduser w configured) (\<lambda>web_folder.
     bnd (if \<not> path_exists w web_folder then
            try_except
              (bnd (call w (Makedirs web_folder)) (\<lambda>_. ret ()))
              (\<lambda>msg. emit (MessageBoxWarning PNone ''Directory Warning''
                             (directory_warning web_folder msg)))
          else ret ()) (\<lambda>_.
     bnd (if path_exists w (icon_path w) then emit (SetWindowIcon (icon_path w))
          else ret ()) (\<lambda>_.
     bnd (call w PluginManagerNew) (\<lambda>plugin_manager.
     bnd (call w (LoadPlugins plugin_manager)) (\<lambda>_.
     bnd (call w (MainWindowNew plugin_manager)) (\<lambda>window.
     bnd (emit (WindowShow window)) (\<lambda>_.
     ret window))))))))))))"

text \<open>\<open>main\<close>: the bootstrap, then the update check, the deferred prompt and the event loop.\<close>

definition main :: "world \<Rightarrow> int prog" where
  "main w =
     bnd (bootstrap w) (\<lambda>window.
     bnd (check_for_updates w) (\<lambda>update_info.
     bnd (if truthy update_info then
            single_shot 1000 (ShowUpdateDialog window update_info)
          else ret ()) (\<lambda>_.
     app_exec w)))"

subsection \<open>The module body: import guard and top-level wrapper\<close>

definition script :: "world \<Rightarrow> unit prog" where
  "script w =
     bnd (call w ImportPyQt5) (\<lambda>_.
     bnd (try_except
            (bnd (call w ImportModules) (\<lambda>_. ret ()))
            (\<lambda>msg.
               bnd (emit (Print (''Error importing required modules: '' @ msg))) (\<lambda>_.
               bnd (emit PrintTraceback) (\<lambda>_.
               if is_main w then
                 bnd (if pyqt5_in_sys_modules w then
                        bnd (call w (CriticalDialog ''Module Import Error''
                                       (''Failed to import required modules: '' @ msg)))
                            (\<lambda>_. ret ())
                      else ret ()) (\<lambda>_.
                 sys_exit 1)
               else ret ())))) (\<lambda>_.
     if is_main w then
       try_except
         (bnd (main w) sys_exit)
         (\<lambda>msg.
            bnd (emit (Print (''Unhandled application error: '' @ msg))) (\<lambda>_.
            bnd (emit PrintTraceback) (\<lambda>_.
            bnd (try_except_all
                   (bnd (call w (CriticalDialog ''Application Error''
                                   (''An unhandled error occurred: '' @ msg)))
                        (\<lambda>_. ret ()))
                   (\<lambda>_. ret ())) (\<lambda>_.
            sys_exit 1))))
     else ret ()))"

text \<open>
  The status the operating system reports for the process. \<open>sys.exit(n)\<close> ends the
  interpreter with the C call \<open>exit(n)\<close>, and a POSIX system reports the low eight bits
  of \<open>n\<close>: 256 gives 0, and -1 gives 255. The \<open>n\<close> of this program is 1 or the value of
  \<open>app.exec_()\<close>, a C int. An exception nobody caught ends the process with status 1,
  after the traceback; a module body that runs to its end gives 0.
\<close>

fun exit_status :: "exc + unit \<Rightarrow> int" where
  "exit_status (Inr u) = 0"
| "exit_status (Inl (SystemExit n)) = n mod 256"
| "exit_status (Inl (Exception m)) = 1"

definition initial :: state where
  "initial = \<lparr>reads = 0, timers = []\<rparr>"

subsection \<open>Sample worlds\<close>

text \<open>
  Concrete worlds on which the theorems below are run. In \<open>calm_world\<close> every
  collaborator returns, nothing is configured, the directories exist and the Updater
  finds no update.
\<close>

definition calm_world :: world where
  "calm_world =
     \<lparr>is_main = True, pyqt5_in_sys_modules = True,
      respond = (\<lambda>c. case c of UpdaterCheck a \<Rightarrow> Returns PNone | _ \<Rightarrow> Returns (PObj ''ok'')),
      config_at = (\<lambda>n. Map.empty),
      expanduser = (\<lambda>p. p),
      path_exists = (\<lambda>p. True),
      icon_path = ''resources/icons/app_icon.png'',
      user_choice = ClickLater,
      timer_elapses = True,
      exec_rc = 0\<rparr>"

text \<open>The update server cannot be reached: the Updater's check raises.\<close>

definition offline_world :: world where
  "offline_world = calm_world\<lparr>respond :=
      (\<lambda>c. case c of UpdaterCheck a \<Rightarrow> Raises ''connection refused''
                    | _ \<Rightarrow> Returns (PObj ''ok''))\<rparr>"

text \<open>The configuration switches the update check off.\<close>

definition disabled_world :: world where
  "disabled_world = calm_world\<lparr>config_at :=
      (\<lambda>n. [(''app'', ''check_updates'') \<mapsto> PBool False])\<rparr>"

text \<open>The user accepts the offer and the download comes back empty.\<close>

definition empty_download_world :: world where
  "empty_download_world = calm_world\<lparr>
      respond := (\<lambda>c. case c of UpdaterDownload a \<Rightarrow> Returns (PStr [])
                        | _ \<Rightarrow> Returns (PObj ''ok'')),
      user_choice := ClickUpdateNow\<rparr>"

text \<open>The user accepts the offer, the download succeeds and the installation fails.\<close>

definition bad_install_world :: world where
  "bad_install_world = calm_world\<lparr>
      respond := (\<lambda>c. case c of
                          UpdaterDownload a \<Rightarrow> Returns (PStr ''/tmp/mk_update.zip'')
                        | UpdaterInstall a f \<Rightarrow> Returns (PBool False)
                        | _ \<Rightarrow> Returns (PObj ''ok'')),
      user_choice := ClickUpdateNow\<rparr>"

text \<open>
  An update to 3.1.0 is found and accepted, while the configured version changes under
  the program: the first four reads find 3.0.6, the fifth 3.0.7, the later ones 3.0.8.
\<close>

definition drifting_world :: world where
  "drifting_world = calm_world\<lparr>
      respond := (\<lambda>c. case c of
                          UpdaterCheck a \<Rightarrow> Returns (PDict [(''version'', PStr ''3.1.0'')])
                        | _ \<Rightarrow> Returns (PObj ''ok'')),
      config_at := (\<lambda>n. [(''app'', ''version'') \<mapsto>
                            PStr (if n < 4 then ''3.0.6''
                                  else if n = 4 then ''3.0.7'' else ''3.0.8'')]),
      user_choice := ClickUpdateNow\<rparr>"


text \<open>The directory cannot be created, and loading the plugins fails as well.\<close>

definition broken_plugins_world :: world where
  "broken_plugins_world = calm_world\<lparr>
      respond := (\<lambda>c. case c of
                          Makedirs p \<Rightarrow> Raises ''Permission denied''
                        | LoadPlugins pm \<Rightarrow> Raises ''plugin failed''
                        | UpdaterCheck a \<Rightarrow> Returns PNone
                        | _ \<Rightarrow> Returns (PObj ''ok'')),
      path_exists := (\<lambda>p. False)\<rparr>"

text \<open>A module of the application cannot be imported.\<close>

definition missing_module_world :: world where
  "missing_module_world = calm_world\<lparr>
      respond := (\<lambda>c. case c of
                          ImportModules \<Rightarrow> Raises ''No module named app.config''
                        | _ \<Rightarrow> Returns (PObj ''ok''))\<rparr>"

text \<open>Loading the plugins fails, and so does the attempt to show the error dialog.\<close>

definition headless_world :: world where
  "headless_world = calm_world\<lparr>
      respond := (\<lambda>c. case c of
                          LoadPlugins pm \<Rightarrow> Raises ''plugin failed''
                        | CriticalDialog title msg \<Rightarrow> Raises ''cannot connect to display''
                        | _ \<Rightarrow> Returns (PObj ''ok''))\<rparr>"

text \<open>Everything works, and the event loop is left with the return code 256.\<close>

definition wrapping_world :: world where
  "wrapping_world = calm_world\<lparr>exec_rc := 256\<rparr>"

subsection \<open>Observations on event lists\<close>

text \<open>The kinds of event the properties below tell apart.\<close>

fun is_call :: "event \<Rightarrow> bool" where
  "is_call (Call c out) = True"
| "is_call e = False"

fun is_single_shot :: "event \<Rightarrow> bool" where
  "is_single_shot (SingleShot ms cb) = True"
| "is_single_shot e = False"

fun is_timer_fired :: "event \<Rightarrow> bool" where
  "is_timer_fired (TimerFired cb) = True"
| "is_timer_fired e = False"

fun is_window_show :: "event \<Rightarrow> bool" where
  "is_window_show (WindowShow win) = True"
| "is_window_show e = False"

fun is_update_check :: "event \<Rightarrow> bool" where
  "is_update_check (Call (UpdaterCheck args) out) = True"
| "is_update_check e = False"

fun is_shell_new :: "event \<Rightarrow> bool" where
  "is_shell_new (Call (MainWindowNew pm) out) = True"
| "is_shell_new e = False"

fun is_app_exec :: "event \<Rightarrow> bool" where
  "is_app_exec (AppExec rc) = True"
| "is_app_exec e = False"

text \<open>The argument lists of the Updaters constructed, in order.\<close>

definition updaters_constructed :: "event list \<Rightarrow> pyval list list" where
  "updaters_constructed es =
     concat (map (\<lambda>e. case e of Call (UpdaterNew args) out \<Rightarrow> [args] | _ \<Rightarrow> []) es)"

subsection \<open>Properties of whole programs\<close>

text \<open>
  Four properties a program may have in every state. They are stated here and
  established below, rule by rule, along the structure of the program.
\<close>

text \<open>Every event of the program \<open>m\<close>, from whatever state it starts, satisfies \<open>P\<close>.\<close>

definition emits :: "(event \<Rightarrow> bool) \<Rightarrow> 'a prog \<Rightarrow> bool" where
  "emits P m = (\<forall>s. \<forall>e \<in> set (events m s). P e)"

text \<open>The program \<open>m\<close> leaves the pending timers as they are.\<close>

definition keeps_timers :: "'a prog \<Rightarrow> bool" where
  "keeps_timers m = (\<forall>s. timers (final m s) = timers s)"

text \<open>The program \<open>m\<close> is never left by \<open>sys.exit\<close>.\<close>

definition no_exit :: "'a prog \<Rightarrow> bool" where
  "no_exit m = (\<forall>s n. result m s \<noteq> Inl (SystemExit n))"

text \<open>When \<open>m\<close> returns a window, it has shown that window.\<close>

definition shows_window :: "pyval prog \<Rightarrow> bool" where
  "shows_window m = (\<forall>s win. result m s = Inr win \<longrightarrow> WindowShow win \<in> set (events m s))"

section \<open>Properties\<close>

lemmas prog_defs = ret_def throw_def bnd_def emit_def call_def config_get_def
  try_except_def try_except_all_def sys_exit_def py_get_def py_expanduser_def
  single_shot_def slot_def

lemmas obs_defs = events_def final_def result_def

subsection \<open>The update check\<close>

text \<open>
  C3. Whenever the configuration's update-check toggle is false (any falsy value),
  \<open>check_for_updates\<close> returns the absent result \<open>False\<close> after that one read of the
  configuration: the read is its only event, so no Updater is constructed and none of
  its methods is invoked.
\<close>

theorem check_disabled_no_updater:
  assumes "\<not> truthy (lookup w (reads s) ''app'' ''check_updates'' (PBool True))"
  shows "check_for_updates w s =
           ([ConfigGet ''app'' ''check_updates'' (PBool True)
               (lookup w (reads s) ''app'' ''check_updates'' (PBool True))],
            s\<lparr>reads := Suc (reads s)\<rparr>,
            Inr (PBool False))"
  using assms by (simp add: check_for_updates_def prog_defs)

theorem check_disabled_no_updater_witness:
  "\<not> truthy (lookup disabled_world 0 ''app'' ''check_updates'' (PBool True)) \<and>
   check_for_updates disabled_world initial =
     ([ConfigGet ''app'' ''check_updates'' (PBool True) (PBool False)],
      \<lparr>reads = 1, timers = []\<rparr>, Inr (PBool False))"
  using check_disabled_no_updater [of disabled_world initial]
  by (simp add: disabled_world_def calm_world_def initial_def lookup_def)

text \<open>
  C1, as stated, fails: \<open>check_for_updates\<close> has no handler around the Updater, so a
  failure of the Updater's check leaves \<open>check_for_updates\<close> as the same exception. In
  \<open>offline_world\<close> the check raises, \<open>check_for_updates\<close> raises with it instead of
  returning \<open>False\<close>, and the process ends with status 1.
\<close>

theorem check_raises_counterexample:
  "respond offline_world
     (UpdaterCheck [PStr ''3.0.6'', PStr ''https://example.com/updates/mk_processor.json''])
     = Raises ''connection refused'' \<and>
   result (check_for_updates offline_world) initial = Inl (Exception ''connection refused'') \<and>
   result (check_for_updates offline_world) initial \<noteq> Inr (PBool False) \<and>
   exit_status (result (script offline_world) initial) = 1"
  by (simp add: obs_defs script_def main_def bootstrap_def app_exec_def
        check_for_updates_def prog_defs offline_world_def calm_world_def initial_def
        lookup_def)

text \<open>
  C1, amended. With the update check enabled and the Updater constructed from the
  configured version \<open>v\<close> and manifest URL \<open>u\<close>: an exception raised by the Updater's check
  is not caught and leaves \<open>check_for_updates\<close> unchanged; when the Updater's check
  returns, \<open>check_for_updates\<close> raises nothing and returns the Updater's result if it is
  truthy, and the absent result \<open>False\<close> otherwise.
\<close>

theorem check_failure_propagates:
  assumes "truthy (lookup w (reads s) ''app'' ''check_updates'' (PBool True))"
      and "v = lookup w (Suc (reads s)) ''app'' ''version'' (PStr ''3.0.6'')"
      and "u = lookup w (Suc (Suc (reads s))) ''app'' ''update_url''
                 (PStr ''https://example.com/updates/mk_processor.json'')"
      and "respond w (UpdaterNew [v, u]) = Returns updater"
  shows "(\<forall>m. respond w (UpdaterCheck [v, u]) = Raises m \<longrightarrow>
             result (check_for_updates w) s = Inl (Exception m)) \<and>
         (\<forall>r. respond w (UpdaterCheck [v, u]) = Returns r \<longrightarrow>
             result (check_for_updates w) s = Inr (if truthy r then r else PBool False))"
  using assms by (simp add: result_def check_for_updates_def prog_defs)

theorem check_failure_propagates_witness:
  "truthy (lookup offline_world 0 ''app'' ''check_updates'' (PBool True)) \<and>
   respond offline_world
     (UpdaterNew [PStr ''3.0.6'', PStr ''https://example.com/updates/mk_processor.json''])
     = Returns (PObj ''ok'') \<and>
   respond offline_world
     (UpdaterCheck [PStr ''3.0.6'', PStr ''https://example.com/updates/mk_processor.json''])
     = Raises ''connection refused'' \<and>
   result (check_for_updates offline_world) initial = Inl (Exception ''connection refused'')"
  using check_failure_propagates [of offline_world initial
          "PStr ''3.0.6''" "PStr ''https://example.com/updates/mk_processor.json''"
          "PObj ''ok''"]
  by (simp add: offline_world_def calm_world_def initial_def lookup_def)

subsection \<open>The update flow\<close>

text \<open>
  C5. When the user has accepted the offer and \<open>download_update()\<close> returns a falsy value
  (on an Updater that was constructed from the configured version \<open>v\<close>), \<open>start_update\<close>
  ends right there: its events are the acceptance of the dialog, the read of the version,
  the construction of the Updater and the download, so \<open>install_update\<close> is never called
  and no warning is shown; it raises nothing and returns.
\<close>

theorem empty_download_no_install:
  assumes "v = lookup w (reads s) ''app'' ''version'' (PStr ''3.0.6'')"
      and "respond w (UpdaterNew [v]) = Returns updater"
      and "respond w (UpdaterDownload [v]) = Returns update_file"
      and "\<not> truthy update_file"
  shows "start_update w parent s =
           ([DialogAccept,
             ConfigGet ''app'' ''version'' (PStr ''3.0.6'') v,
             Call (UpdaterNew [v]) (Returns updater),
             Call (UpdaterDownload [v]) (Returns update_file)],
            s\<lparr>reads := Suc (reads s)\<rparr>,
            Inr ())"
  using assms by (simp add: start_update_def prog_defs)

theorem empty_download_no_install_witness:
  "respond empty_download_world (UpdaterNew [PStr ''3.0.6'']) = Returns (PObj ''ok'') \<and>
   respond empty_download_world (UpdaterDownload [PStr ''3.0.6'']) = Returns (PStr []) \<and>
   \<not> truthy (PStr []) \<and>
   start_update empty_download_world (PObj ''window'') initial =
     ([DialogAccept,
       ConfigGet ''app'' ''version'' (PStr ''3.0.6'') (PStr ''3.0.6''),
       Call (UpdaterNew [PStr ''3.0.6'']) (Returns (PObj ''ok'')),
       Call (UpdaterDownload [PStr ''3.0.6'']) (Returns (PStr []))],
      \<lparr>reads = 1, timers = []\<rparr>, Inr ())"
  using empty_download_no_install [of "PStr ''3.0.6''" empty_download_world initial
          "PObj ''ok''" "PStr []" "PObj ''window''"]
  by (simp add: empty_download_world_def calm_world_def initial_def lookup_def)

text \<open>
  C6. When the user has accepted the offer, \<open>download_update()\<close> returns an artifact (a
  truthy value) and \<open>install_update\<close> on that artifact returns a falsy value,
  \<open>start_update\<close> calls \<open>install_update\<close> exactly once, shows the warning "Failed to install
  the update. Please try again later." under the title "Update Failed" as its last event,
  and returns without raising: nothing is retried.
\<close>

theorem failed_install_warns_once:
  assumes "v = lookup w (reads s) ''app'' ''version'' (PStr ''3.0.6'')"
      and "respond w (UpdaterNew [v]) = Returns updater"
      and "respond w (UpdaterDownload [v]) = Returns update_file"
      and "truthy update_file"
      and "respond w (UpdaterInstall [v] update_file) = Returns outcome"
      and "\<not> truthy outcome"
  shows "start_update w parent s =
           ([DialogAccept,
             ConfigGet ''app'' ''version'' (PStr ''3.0.6'') v,
             Call (UpdaterNew [v]) (Returns updater),
             Call (UpdaterDownload [v]) (Returns update_file),
             Call (UpdaterInstall [v] update_file) (Returns outcome),
             MessageBoxWarning parent ''Update Failed''
               ''Failed to install the update. Please try again later.''],
            s\<lparr>reads := Suc (reads s)\<rparr>,
            Inr ())"
  using assms by (simp add: start_update_def prog_defs)

theorem failed_install_warns_once_witness:
  "respond bad_install_world (UpdaterNew [PStr ''3.0.6'']) = Returns (PObj ''ok'') \<and>
   respond bad_install_world (UpdaterDownload [PStr ''3.0.6''])
     = Returns (PStr ''/tmp/mk_update.zip'') \<and>
   truthy (PStr ''/tmp/mk_update.zip'') \<and>
   respond bad_install_world (UpdaterInstall [PStr ''3.0.6''] (PStr ''/tmp/mk_update.zip''))
     = Returns (PBool False) \<and>
   \<not> truthy (PBool False) \<and>
   start_update bad_install_world (PObj ''window'') initial =
     ([DialogAccept,
       ConfigGet ''app'' ''version'' (PStr ''3.0.6'') (PStr ''3.0.6''),
       Call (UpdaterNew [PStr ''3.0.6'']) (Returns (PObj ''ok'')),
       Call (UpdaterDownload [PStr ''3.0.6'']) (Returns (PStr ''/tmp/mk_update.zip'')),
       Call (UpdaterInstall [PStr ''3.0.6''] (PStr ''/tmp/mk_update.zip''))
         (Returns (PBool False)),
       MessageBoxWarning (PObj ''window'') ''Update Failed''
         ''Failed to install the update. Please try again later.''],
      \<lparr>reads = 1, timers = []\<rparr>, Inr ())"
  using failed_install_warns_once [of "PStr ''3.0.6''" bad_install_world initial
          "PObj ''ok''" "PStr ''/tmp/mk_update.zip''" "PBool False" "PObj ''window''"]
  by (simp add: bad_install_world_def calm_world_def initial_def lookup_def)

text \<open>
  C8. When the offer is presented (the update information is a dict) and the user does
  not press "Update Now", \<open>show_update_dialog\<close> builds the dialog, reads the configured
  version once, runs the dialog and rejects it. These are all its events: no Updater is
  constructed, and neither \<open>download_update\<close> nor \<open>install_update\<close> is invoked.
\<close>

theorem declined_offer_no_updater:
  assumes "user_choice w \<noteq> ClickUpdateNow"
  shows "show_update_dialog w parent (PDict d) s =
           ([DialogNew parent ''Update Available'',
             AddLabel [Lit ''<h3>MK Processor '',
                       Interp (case map_of d ''version'' of None \<Rightarrow> PNone | Some x \<Rightarrow> x),
                       Lit '' is available!</h3>''],
             ConfigGet ''app'' ''version'' (PStr ''3.0.6'')
               (lookup w (reads s) ''app'' ''version'' (PStr ''3.0.6'')),
             AddLabel [Lit ''You are currently using version '',
                       Interp (lookup w (reads s) ''app'' ''version'' (PStr ''3.0.6''))],
             AddLabel [Lit ''<b>Release Notes:</b>''],
             SetPlainText (case map_of d ''release_notes'' of
                             None \<Rightarrow> PStr ''No release notes available.'' | Some x \<Rightarrow> x),
             AddButtons,
             DialogExec (user_choice w),
             DialogReject],
            s\<lparr>reads := Suc (reads s)\<rparr>,
            Inr ())"
  using assms by (cases "user_choice w") (simp_all add: show_update_dialog_def prog_defs)

theorem declined_offer_no_updater_witness:
  "user_choice calm_world \<noteq> ClickUpdateNow \<and>
   show_update_dialog calm_world (PObj ''window'')
       (PDict [(''version'', PStr ''3.1.0''), (''release_notes'', PStr ''Fixes'')]) initial =
     ([DialogNew (PObj ''window'') ''Update Available'',
       AddLabel [Lit ''<h3>MK Processor '', Interp (PStr ''3.1.0''),
                 Lit '' is available!</h3>''],
       ConfigGet ''app'' ''version'' (PStr ''3.0.6'') (PStr ''3.0.6''),
       AddLabel [Lit ''You are currently using version '', Interp (PStr ''3.0.6'')],
       AddLabel [Lit ''<b>Release Notes:</b>''],
       SetPlainText (PStr ''Fixes''),
       AddButtons,
       DialogExec ClickLater,
       DialogReject],
      \<lparr>reads = 1, timers = []\<rparr>, Inr ())"
  using declined_offer_no_updater [of calm_world "PObj ''window''"
          "[(''version'', PStr ''3.1.0''), (''release_notes'', PStr ''Fixes'')]" initial]
  by (simp add: calm_world_def initial_def lookup_def)

text \<open>
  The dialog on a dict: the offer is built and shown, then the user's answer is acted on
  in the state after the one read of the configuration.
\<close>

lemma dialog_split:
  "show_update_dialog w parent (PDict d) s =
     (case (case user_choice w of
              ClickUpdateNow \<Rightarrow> slot (start_update w parent)
            | _ \<Rightarrow> emit DialogReject) (s\<lparr>reads := Suc (reads s)\<rparr>) of
        (es, s', r) \<Rightarrow>
          ([DialogNew parent ''Update Available'',
            AddLabel [Lit ''<h3>MK Processor '',
                      Interp (case map_of d ''version'' of None \<Rightarrow> PNone | Some x \<Rightarrow> x),
                      Lit '' is available!</h3>''],
            ConfigGet ''app'' ''version'' (PStr ''3.0.6'')
              (lookup w (reads s) ''app'' ''version'' (PStr ''3.0.6'')),
            AddLabel [Lit ''You are currently using version '',
                      Interp (lookup w (reads s) ''app'' ''version'' (PStr ''3.0.6''))],
            AddLabel [Lit ''<b>Release Notes:</b>''],
            SetPlainText (case map_of d ''release_notes'' of
                            None \<Rightarrow> PStr ''No release notes available.'' | Some x \<Rightarrow> x),
            AddButtons,
            DialogExec (user_choice w)] @ es, s', r))"
  by (cases "user_choice w")
     (simp_all add: show_update_dialog_def ret_def throw_def bnd_def emit_def config_get_def
        py_get_def split: prod.splits)

text \<open>
  The slot \<open>start_update\<close>, run by the event loop: all it does, in every world. A call
  that raises ends the slot, and the exception goes to the Exception Reporter.
\<close>

lemma slot_start_update:
  "slot (start_update w parent) s =
     ([DialogAccept,
       ConfigGet ''app'' ''version'' (PStr ''3.0.6'')
         (lookup w (reads s) ''app'' ''version'' (PStr ''3.0.6'')),
       Call (UpdaterNew [lookup w (reads s) ''app'' ''version'' (PStr ''3.0.6'')])
         (respond w (UpdaterNew [lookup w (reads s) ''app'' ''version'' (PStr ''3.0.6'')]))] @
      (case respond w (UpdaterNew [lookup w (reads s) ''app'' ''version'' (PStr ''3.0.6'')]) of
         Raises m \<Rightarrow> [Excepthook (Exception m)]
       | Returns updater \<Rightarrow>
           Call (UpdaterDownload [lookup w (reads s) ''app'' ''version'' (PStr ''3.0.6'')])
             (respond w
                (UpdaterDownload [lookup w (reads s) ''app'' ''version'' (PStr ''3.0.6'')])) #
           (case respond w
                   (UpdaterDownload [lookup w (reads s) ''app'' ''version'' (PStr ''3.0.6'')]) of
              Raises m \<Rightarrow> [Excepthook (Exception m)]
            | Returns update_file \<Rightarrow>
                if truthy update_file then
                  Call (UpdaterInstall [lookup w (reads s) ''app'' ''version'' (PStr ''3.0.6'')]
                          update_file)
                    (respond w
                       (UpdaterInstall [lookup w (reads s) ''app'' ''version'' (PStr ''3.0.6'')]
                          update_file)) #
                  (case respond w
                          (UpdaterInstall
                             [lookup w (reads s) ''app'' ''version'' (PStr ''3.0.6'')]
                             update_file) of
                     Raises m \<Rightarrow> [Excepthook (Exception m)]
                   | Returns outcome \<Rightarrow>
                       if truthy outcome then []
                       else [MessageBoxWarning parent ''Update Failed''
                               ''Failed to install the update. Please try again later.''])
                else [])),
      s\<lparr>reads := Suc (reads s)\<rparr>,
      Inr ())"
  by (simp add: slot_def start_update_def try_except_all_def ret_def throw_def bnd_def
        emit_def call_def config_get_def split: outcome.splits)

text \<open>
  C9. An accepted offer, for every update information that is a dict, in every world and
  state. \<open>show_update_dialog\<close> reads the configured version while it builds the dialog
  and shows that value, \<open>shown\<close>, as the running version. When the user presses "Update
  Now" it reads the configured version a second time; that value, \<open>v\<close>, is the one
  argument the Updater is constructed from, and \<open>download_update\<close> and, after a truthy
  download, \<open>install_update\<close> are called on that Updater. The equation lists everything
  the function does: the configuration is read exactly twice (the count of reads goes up
  by two), each value is used right after its read, no other Updater is constructed and
  nothing is downloaded through another one. The version that \<open>check_for_updates\<close> read
  earlier is not an argument of \<open>show_update_dialog\<close> and is used nowhere.
\<close>

theorem versions_reread:
  assumes "user_choice w = ClickUpdateNow"
      and "shown = lookup w (reads s) ''app'' ''version'' (PStr ''3.0.6'')"
      and "v = lookup w (Suc (reads s)) ''app'' ''version'' (PStr ''3.0.6'')"
  shows "show_update_dialog w parent (PDict d) s =
     ([DialogNew parent ''Update Available'',
       AddLabel [Lit ''<h3>MK Processor '',
                 Interp (case map_of d ''version'' of None \<Rightarrow> PNone | Some x \<Rightarrow> x),
                 Lit '' is available!</h3>''],
       ConfigGet ''app'' ''version'' (PStr ''3.0.6'') shown,
       AddLabel [Lit ''You are currently using version '', Interp shown],
       AddLabel [Lit ''<b>Release Notes:</b>''],
       SetPlainText (case map_of d ''release_notes'' of
                       None \<Rightarrow> PStr ''No release notes available.'' | Some x \<Rightarrow> x),
       AddButtons,
       DialogExec ClickUpdateNow,
       DialogAccept,
       ConfigGet ''app'' ''version'' (PStr ''3.0.6'') v,
       Call (UpdaterNew [v]) (respond w (UpdaterNew [v]))] @
      (case respond w (UpdaterNew [v]) of
         Raises m \<Rightarrow> [Excepthook (Exception m)]
       | Returns updater \<Rightarrow>
           Call (UpdaterDownload [v]) (respond w (UpdaterDownload [v])) #
           (case respond w (UpdaterDownload [v]) of
              Raises m \<Rightarrow> [Excepthook (Exception m)]
            | Returns update_file \<Rightarrow>
                if truthy update_file then
                  Call (UpdaterInstall [v] update_file)
                    (respond w (UpdaterInstall [v] update_file)) #
                  (case respond w (UpdaterInstall [v] update_file) of
                     Raises m \<Rightarrow> [Excepthook (Exception m)]
                   | Returns outcome \<Rightarrow>
                       if truthy outcome then []
                       else [MessageBoxWarning parent ''Update Failed''
                               ''Failed to install the update. Please try again later.''])
                else [])),
      s\<lparr>reads := Suc (Suc (reads s))\<rparr>,
      Inr ())"
  unfolding dialog_split assms
  by (simp add: slot_start_update split: outcome.splits)

theorem versions_reread_witness:
  "user_choice drifting_world = ClickUpdateNow \<and>
   lookup drifting_world 2 ''app'' ''version'' (PStr ''3.0.6'') = PStr ''3.0.6'' \<and>
   PStr ''3.0.7'' = lookup drifting_world (reads \<lparr>reads = 4, timers = []\<rparr>)
                      ''app'' ''version'' (PStr ''3.0.6'') \<and>
   PStr ''3.0.8'' = lookup drifting_world (Suc (reads \<lparr>reads = 4, timers = []\<rparr>))
                      ''app'' ''version'' (PStr ''3.0.6'') \<and>
   show_update_dialog drifting_world (PObj ''window'')
       (PDict [(''version'', PStr ''3.1.0'')]) \<lparr>reads = 4, timers = []\<rparr> =
     ([DialogNew (PObj ''window'') ''Update Available'',
       AddLabel [Lit ''<h3>MK Processor '', Interp (PStr ''3.1.0''),
                 Lit '' is available!</h3>''],
       ConfigGet ''app'' ''version'' (PStr ''3.0.6'') (PStr ''3.0.7''),
       AddLabel [Lit ''You are currently using version '', Interp (PStr ''3.0.7'')],
       AddLabel [Lit ''<b>Release Notes:</b>''],
       SetPlainText (PStr ''No release notes available.''),
       AddButtons,
       DialogExec ClickUpdateNow,
       DialogAccept,
       ConfigGet ''app'' ''version'' (PStr ''3.0.6'') (PStr ''3.0.8''),
       Call (UpdaterNew [PStr ''3.0.8'']) (Returns (PObj ''ok'')),
       Call (UpdaterDownload [PStr ''3.0.8'']) (Returns (PObj ''ok'')),
       Call (UpdaterInstall [PStr ''3.0.8''] (PObj ''ok'')) (Returns (PObj ''ok''))],
      \<lparr>reads = 6, timers = []\<rparr>,
      Inr ())"
  using versions_reread [of drifting_world "PStr ''3.0.7''" "\<lparr>reads = 4, timers = []\<rparr>"
          "PStr ''3.0.8''" "PObj ''window''" "[(''version'', PStr ''3.1.0'')]"]
  by (simp add: drifting_world_def calm_world_def lookup_def)

text \<open>
  The three reads in one run. In \<open>drifting_world\<close> the update check reads version 3.0.6,
  the offer shows 3.0.7 as the running version, and the Updater that downloads is
  constructed from 3.0.8: each is the value the configuration held at that read.
\<close>

lemma drifting_run:
  "events (main drifting_world) initial =
     [QApplicationNew,
      SetApplicationName ''MK Processor'',
      SetApplicationVersion ''3.0.6'',
      Call SetupExceptionHandling (Returns (PObj ''ok'')),
      ConfigGet ''google_drive'' ''web_folder'' (PStr ''~/GoogleDriveMount/Web/'')
        (PStr ''~/GoogleDriveMount/Web/''),
      SetWindowIcon ''resources/icons/app_icon.png'',
      Call PluginManagerNew (Returns (PObj ''ok'')),
      Call (LoadPlugins (PObj ''ok'')) (Returns (PObj ''ok'')),
      Call (MainWindowNew (PObj ''ok'')) (Returns (PObj ''ok'')),
      WindowShow (PObj ''ok''),
      ConfigGet ''app'' ''check_updates'' (PBool True) (PBool True),
      ConfigGet ''app'' ''version'' (PStr ''3.0.6'') (PStr ''3.0.6''),
      ConfigGet ''app'' ''update_url''
        (PStr ''https://example.com/updates/mk_processor.json'')
        (PStr ''https://example.com/updates/mk_processor.json''),
      Call (UpdaterNew [PStr ''3.0.6'',
                        PStr ''https://example.com/updates/mk_processor.json''])
        (Returns (PObj ''ok'')),
      Call (UpdaterCheck [PStr ''3.0.6'',
                          PStr ''https://example.com/updates/mk_processor.json''])
        (Returns (PDict [(''version'', PStr ''3.1.0'')])),
      SingleShot 1000 (ShowUpdateDialog (PObj ''ok'') (PDict [(''version'', PStr ''3.1.0'')])),
      TimerFired (ShowUpdateDialog (PObj ''ok'') (PDict [(''version'', PStr ''3.1.0'')])),
      DialogNew (PObj ''ok'') ''Update Available'',
      AddLabel [Lit ''<h3>MK Processor '', Interp (PStr ''3.1.0''),
                Lit '' is available!</h3>''],
      ConfigGet ''app'' ''version'' (PStr ''3.0.6'') (PStr ''3.0.7''),
      AddLabel [Lit ''You are currently using version '', Interp (PStr ''3.0.7'')],
      AddLabel [Lit ''<b>Release Notes:</b>''],
      SetPlainText (PStr ''No release notes available.''),
      AddButtons,
      DialogExec ClickUpdateNow,
      DialogAccept,
      ConfigGet ''app'' ''version'' (PStr ''3.0.6'') (PStr ''3.0.8''),
      Call (UpdaterNew [PStr ''3.0.8'']) (Returns (PObj ''ok'')),
      Call (UpdaterDownload [PStr ''3.0.8'']) (Returns (PObj ''ok'')),
      Call (UpdaterInstall [PStr ''3.0.8''] (PObj ''ok'')) (Returns (PObj ''ok'')),
      AppExec 0]"
  by (simp add: events_def main_def bootstrap_def app_exec_def check_for_updates_def
        show_update_dialog_def start_update_def prog_defs drifting_world_def
        calm_world_def initial_def lookup_def)

subsection \<open>Rules for composed programs\<close>

lemma events_bnd:
  "events (bnd m f) s =
     events m s @ (case result m s of Inl e \<Rightarrow> [] | Inr x \<Rightarrow> events (f x) (final m s))"
  by (simp add: obs_defs bnd_def split: prod.splits sum.splits)

lemma result_bnd:
  "result (bnd m f) s =
     (case result m s of Inl e \<Rightarrow> Inl e | Inr x \<Rightarrow> result (f x) (final m s))"
  by (simp add: obs_defs bnd_def split: prod.splits sum.splits)

lemma final_bnd:
  "final (bnd m f) s =
     (case result m s of Inl e \<Rightarrow> final m s | Inr x \<Rightarrow> final (f x) (final m s))"
  by (simp add: obs_defs bnd_def split: prod.splits sum.splits)

lemma emits_ret: "emits P (ret x)"
  by (simp add: emits_def events_def ret_def)

lemma emits_throw: "emits P (throw x)"
  by (simp add: emits_def events_def throw_def)

lemma emits_emit: "P e \<Longrightarrow> emits P (emit e)"
  by (simp add: emits_def events_def emit_def)

lemma emits_call: "(\<And>out. P (Call c out)) \<Longrightarrow> emits P (call w c)"
  by (simp add: emits_def events_def call_def)

lemma emits_config_get: "(\<And>v. P (ConfigGet a b d v)) \<Longrightarrow> emits P (config_get w a b d)"
  by (simp add: emits_def events_def config_get_def)

lemma emits_bnd: "emits P m \<Longrightarrow> (\<And>x. emits P (f x)) \<Longrightarrow> emits P (bnd m f)"
  by (auto simp add: emits_def events_bnd split: sum.splits)

lemma events_try_except:
  "events (try_except m h) s =
     events m s @ (case result m s of
                     Inl (Exception msg) \<Rightarrow> events (h msg) (final m s) | _ \<Rightarrow> [])"
  by (simp add: obs_defs try_except_def split: prod.splits sum.splits exc.splits)

lemma events_try_except_all:
  "events (try_except_all m h) s =
     events m s @ (case result m s of Inl e \<Rightarrow> events (h e) (final m s) | Inr x \<Rightarrow> [])"
  by (simp add: obs_defs try_except_all_def split: prod.splits sum.splits)

lemma emits_try_except: "emits P m \<Longrightarrow> (\<And>x. emits P (h x)) \<Longrightarrow> emits P (try_except m h)"
  by (auto simp add: emits_def events_try_except split: sum.splits exc.splits)

lemma emits_try_except_all:
  "emits P m \<Longrightarrow> (\<And>x. emits P (h x)) \<Longrightarrow> emits P (try_except_all m h)"
  by (auto simp add: emits_def events_try_except_all split: sum.splits)

lemma emits_if: "emits P a \<Longrightarrow> emits P b \<Longrightarrow> emits P (if c then a else b)"
  by simp

lemma emits_py_get: "emits P (py_get obj k d)"
  by (simp add: emits_def events_def py_get_def ret_def throw_def split: pyval.splits)

lemma emits_py_expanduser: "emits P (py_expanduser w v)"
  by (simp add: emits_def events_def py_expanduser_def ret_def throw_def split: pyval.splits)

lemma emits_single_shot: "P (SingleShot ms cb) \<Longrightarrow> emits P (single_shot ms cb)"
  by (simp add: emits_def events_def single_shot_def)

lemma emits_slot: "emits P m \<Longrightarrow> (\<And>e. P (Excepthook e)) \<Longrightarrow> emits P (slot m)"
  unfolding slot_def by (intro emits_try_except_all emits_emit) simp_all

lemmas emits_intros = emits_ret emits_throw emits_emit emits_call emits_config_get emits_bnd
  emits_try_except emits_try_except_all emits_if emits_py_get emits_py_expanduser
  emits_single_shot emits_slot

lemma emits_filter: "emits P m \<Longrightarrow> (\<And>e. P e \<Longrightarrow> \<not> Q e) \<Longrightarrow> filter Q (events m s) = []"
  by (auto simp add: emits_def filter_empty_conv)

lemma emitsD: "emits P m \<Longrightarrow> e \<in> set (events m s) \<Longrightarrow> P e"
  by (simp add: emits_def)

lemma emits_weaken: "emits P m \<Longrightarrow> (\<And>e. P e \<Longrightarrow> Q e) \<Longrightarrow> emits Q m"
  by (simp add: emits_def)

lemma bootstrap_emits:
  "emits (\<lambda>e. \<not> is_single_shot e \<and> \<not> is_timer_fired e \<and> \<not> is_update_check e \<and>
              \<not> is_app_exec e) (bootstrap w)"
  unfolding bootstrap_def by (intro emits_intros) simp_all

lemma check_emits:
  "emits (\<lambda>e. \<not> is_single_shot e \<and> \<not> is_timer_fired e \<and> \<not> is_window_show e \<and>
              \<not> is_shell_new e \<and> \<not> is_app_exec e) (check_for_updates w)"
  unfolding check_for_updates_def by (intro emits_intros) simp_all

lemma start_update_emits:
  "emits (\<lambda>e. \<not> is_single_shot e \<and> \<not> is_timer_fired e \<and> \<not> is_window_show e \<and>
              \<not> is_update_check e \<and> \<not> is_shell_new e) (start_update w parent)"
  unfolding start_update_def by (intro emits_intros) simp_all

lemma emits_user_case:
  "emits P a \<Longrightarrow> emits P b \<Longrightarrow> emits P c \<Longrightarrow>
   emits P (case u of ClickLater \<Rightarrow> a | ClickUpdateNow \<Rightarrow> b | CloseDialog \<Rightarrow> c)"
  by (cases u) simp_all

lemma dialog_emits:
  "emits (\<lambda>e. \<not> is_single_shot e \<and> \<not> is_timer_fired e \<and> \<not> is_window_show e \<and>
              \<not> is_update_check e \<and> \<not> is_shell_new e) (show_update_dialog w parent info)"
  unfolding show_update_dialog_def
  by (intro emits_intros emits_user_case start_update_emits) simp_all

lemma obs_ret: "events (ret x) s = []" "result (ret x) s = Inr x" "final (ret x) s = s"
  by (simp_all add: obs_defs ret_def)

lemma obs_throw: "events (throw e) s = []" "result (throw e) s = Inl e" "final (throw e) s = s"
  by (simp_all add: obs_defs throw_def)

lemma obs_emit: "events (emit e) s = [e]" "result (emit e) s = Inr ()" "final (emit e) s = s"
  by (simp_all add: obs_defs emit_def)

lemma obs_call:
  "events (call w c) s = [Call c (respond w c)]"
  "result (call w c) s =
     (case respond w c of Raises m \<Rightarrow> Inl (Exception m) | Returns v \<Rightarrow> Inr v)"
  "final (call w c) s = s"
  by (simp_all add: obs_defs call_def)

lemma obs_config_get:
  "events (config_get w a b d) s = [ConfigGet a b d (lookup w (reads s) a b d)]"
  "result (config_get w a b d) s = Inr (lookup w (reads s) a b d)"
  "final (config_get w a b d) s = s\<lparr>reads := Suc (reads s)\<rparr>"
  by (simp_all add: obs_defs config_get_def)

lemma obs_single_shot:
  "events (single_shot ms cb) s = [SingleShot ms cb]"
  "result (single_shot ms cb) s = Inr ()"
  "final (single_shot ms cb) s = s\<lparr>timers := timers s @ [(ms, cb)]\<rparr>"
  by (simp_all add: obs_defs single_shot_def)

lemmas obs_simps = events_bnd result_bnd final_bnd obs_ret obs_throw obs_emit obs_call
  obs_config_get obs_single_shot

lemma slot_result: "result (slot m) s = Inr ()"
  by (simp add: result_def slot_def try_except_all_def emit_def split: prod.splits sum.splits)

lemma fire_timers_result: "result (fire_timers w ts) s = Inr ()"
  by (induction ts arbitrary: s) (auto simp add: obs_simps slot_result)

lemma fire_timers_emits:
  "emits (\<lambda>e. \<not> is_single_shot e \<and> \<not> is_window_show e \<and> \<not> is_update_check e \<and>
              \<not> is_shell_new e) (fire_timers w ts)"
proof (induction ts)
  case Nil
  show ?case by (simp add: emits_ret)
next
  case (Cons t ts)
  obtain ms cb where t: "t = (ms, cb)" by (cases t)
  obtain win info where cb: "cb = ShowUpdateDialog win info" by (cases cb)
  have "emits (\<lambda>e. \<not> is_single_shot e \<and> \<not> is_window_show e \<and> \<not> is_update_check e \<and>
              \<not> is_shell_new e) (show_update_dialog w win info)"
    by (rule emits_weaken [OF dialog_emits]) simp
  then show ?case
    unfolding t cb fire_timers.simps run_callback.simps
    by (intro emits_intros Cons.IH) simp_all
qed

lemma fire_timers_fired:
  "filter is_timer_fired (events (fire_timers w ts) s) = map (\<lambda>t. TimerFired (snd t)) ts"
proof (induction ts arbitrary: s)
  case Nil
  show ?case by (simp add: obs_simps)
next
  case (Cons t ts)
  obtain ms cb where t: "t = (ms, cb)" by (cases t)
  obtain win info where cb: "cb = ShowUpdateDialog win info" by (cases cb)
  have quiet: "filter is_timer_fired (events (slot (show_update_dialog w win info)) s') = []"
    for s'
    by (rule emits_filter [OF emits_slot [OF dialog_emits]]) simp_all
  show ?case
    unfolding t cb
    by (simp add: obs_simps slot_result Cons.IH quiet)
qed

lemma app_exec_unfold:
  "app_exec w s =
     bnd (if timer_elapses w then fire_timers w (timers s) else ret ()) (\<lambda>_.
     bnd (emit (AppExec (exec_rc w))) (\<lambda>_. ret (exec_rc w))) (s\<lparr>timers := []\<rparr>)"
  by (simp add: app_exec_def)

lemma app_exec_result: "result (app_exec w) s = Inr (exec_rc w)"
  unfolding result_def [of "app_exec w"] app_exec_unfold
  unfolding result_def [symmetric]
  by (simp add: obs_simps fire_timers_result)

lemma app_exec_events:
  "events (app_exec w) s =
     (if timer_elapses w then events (fire_timers w (timers s)) (s\<lparr>timers := []\<rparr>) else [])
     @ [AppExec (exec_rc w)]"
  unfolding events_def [of "app_exec w"] app_exec_unfold
  unfolding events_def [symmetric]
  by (simp add: obs_simps fire_timers_result)

lemma app_exec_fired:
  "filter is_timer_fired (events (app_exec w) s) =
     (if timer_elapses w then map (\<lambda>t. TimerFired (snd t)) (timers s) else [])"
  by (simp add: app_exec_events fire_timers_fired)

lemma app_exec_quiet:
  assumes "e \<in> set (events (app_exec w) s)"
  shows "\<not> is_single_shot e \<and> \<not> is_window_show e \<and> \<not> is_update_check e \<and> \<not> is_shell_new e"
  using assms fire_timers_emits [of w "timers s"]
  by (auto simp add: app_exec_events emits_def split: if_splits)

lemma keeps_ret: "keeps_timers (ret x)"
  by (simp add: keeps_timers_def obs_simps)

lemma keeps_throw: "keeps_timers (throw x)"
  by (simp add: keeps_timers_def obs_simps)

lemma keeps_emit: "keeps_timers (emit e)"
  by (simp add: keeps_timers_def obs_simps)

lemma keeps_call: "keeps_timers (call w c)"
  by (simp add: keeps_timers_def obs_simps)

lemma keeps_config_get: "keeps_timers (config_get w a b d)"
  by (simp add: keeps_timers_def obs_simps)

lemma keeps_bnd: "keeps_timers m \<Longrightarrow> (\<And>x. keeps_timers (f x)) \<Longrightarrow> keeps_timers (bnd m f)"
  by (simp add: keeps_timers_def final_bnd split: sum.splits)

lemma final_try_except:
  "final (try_except m h) s =
     (case result m s of Inl (Exception msg) \<Rightarrow> final (h msg) (final m s) | _ \<Rightarrow> final m s)"
  by (simp add: obs_defs try_except_def split: prod.splits sum.splits exc.splits)

lemma keeps_try_except:
  "keeps_timers m \<Longrightarrow> (\<And>x. keeps_timers (h x)) \<Longrightarrow> keeps_timers (try_except m h)"
  by (simp add: keeps_timers_def final_try_except split: sum.splits exc.splits)

lemma keeps_if: "keeps_timers a \<Longrightarrow> keeps_timers b \<Longrightarrow> keeps_timers (if c then a else b)"
  by simp

lemma keeps_py_expanduser: "keeps_timers (py_expanduser w v)"
  by (simp add: keeps_timers_def final_def py_expanduser_def ret_def throw_def
      split: pyval.splits)

lemmas keeps_intros = keeps_ret keeps_throw keeps_emit keeps_call keeps_config_get keeps_bnd
  keeps_try_except keeps_if keeps_py_expanduser

lemma bootstrap_keeps_timers: "keeps_timers (bootstrap w)"
  unfolding bootstrap_def by (intro keeps_intros)

lemma check_keeps_timers: "keeps_timers (check_for_updates w)"
  unfolding check_for_updates_def by (intro keeps_intros)

lemma shows_window_bnd: "(\<And>x. shows_window (f x)) \<Longrightarrow> shows_window (bnd m f)"
  by (auto simp add: shows_window_def obs_simps split: sum.splits)

lemma shows_window_last: "shows_window (bnd (emit (WindowShow window)) (\<lambda>_. ret window))"
  by (simp add: shows_window_def obs_simps)

lemma bootstrap_shows_window: "shows_window (bootstrap w)"
  unfolding bootstrap_def
  by (intro shows_window_bnd shows_window_bnd [where f = "\<lambda>window. bnd (emit (WindowShow window)) (\<lambda>_. ret window)"] shows_window_last)

text \<open>
  The update check returns a truthy value only when the Updater's check returned it, and
  a truthy value the Updater's check returns is the result of the update check.
\<close>

lemma check_truthy_result:
  assumes "result (check_for_updates w) s = Inr info" and "truthy info"
  shows "\<exists>args. Call (UpdaterCheck args) (Returns info) \<in> set (events (check_for_updates w) s)"
  using assms
  by (auto simp add: check_for_updates_def obs_simps split: if_splits outcome.splits)

lemma check_truthy_event:
  assumes "Call (UpdaterCheck args) (Returns info) \<in> set (events (check_for_updates w) s)"
      and "truthy info"
  shows "result (check_for_updates w) s = Inr info"
  using assms
  by (auto simp add: check_for_updates_def obs_simps split: if_splits outcome.splits)

subsection \<open>The update information and the Updater\<close>

lemma start_update_constructs:
  "updaters_constructed (events (slot (start_update w parent)) s) =
     [[lookup w (reads s) ''app'' ''version'' (PStr ''3.0.6'')]]"
proof -
  let ?v = "lookup w (reads s) ''app'' ''version'' (PStr ''3.0.6'')"
  note defs = updaters_constructed_def slot_def events_try_except_all start_update_def
    obs_simps
  show ?thesis
  proof (cases "respond w (UpdaterNew [?v])")
    case (Raises m)
    then show ?thesis by (simp add: defs)
  next
    case new: (Returns u)
    show ?thesis
    proof (cases "respond w (UpdaterDownload [?v])")
      case (Raises m)
      with new show ?thesis by (simp add: defs)
    next
      case dl: (Returns f)
      show ?thesis
      proof (cases "respond w (UpdaterInstall [?v] f)")
        case (Raises m)
        with new dl show ?thesis by (simp add: defs)
      next
        case (Returns r)
        with new dl show ?thesis by (simp add: defs)
      qed
    qed
  qed
qed

text \<open>
  C10. The update information reaches the dialog's labels and nothing else. For any two
  update informations (dicts, whatever their fields, \<open>release_notes\<close> and \<open>download_ref\<close>
  among them), the same world, parent and state, the two runs of \<open>show_update_dialog\<close>
  make the same calls with the same outcomes, in the same order (the construction of the
  Updater, the download and the installation among them), end in the same state and with
  the same result. The only Updater the flow constructs is the one of an accepted offer,
  and its constructor gets one argument, the version the configuration holds at that
  read: no manifest URL and no field of the update information. (The Updater itself is a
  black box here: it answers a call from the arguments of its constructor and of the
  call.)
\<close>

theorem update_info_never_reaches_updater:
  "filter is_call (events (show_update_dialog w parent (PDict d1)) s) =
   filter is_call (events (show_update_dialog w parent (PDict d2)) s) \<and>
   final (show_update_dialog w parent (PDict d1)) s =
   final (show_update_dialog w parent (PDict d2)) s \<and>
   result (show_update_dialog w parent (PDict d1)) s =
   result (show_update_dialog w parent (PDict d2)) s \<and>
   updaters_constructed (events (show_update_dialog w parent (PDict d1)) s) =
     (if user_choice w = ClickUpdateNow
      then [[lookup w (Suc (reads s)) ''app'' ''version'' (PStr ''3.0.6'')]] else [])"
proof -
  have same: "filter is_call (events (show_update_dialog w parent (PDict d1)) s) =
   filter is_call (events (show_update_dialog w parent (PDict d2)) s) \<and>
   final (show_update_dialog w parent (PDict d1)) s =
   final (show_update_dialog w parent (PDict d2)) s \<and>
   result (show_update_dialog w parent (PDict d1)) s =
   result (show_update_dialog w parent (PDict d2)) s"
    by (simp add: obs_defs dialog_split split: prod.splits)
  have built: "updaters_constructed (events (show_update_dialog w parent (PDict d1)) s) =
     (if user_choice w = ClickUpdateNow
      then [[lookup w (Suc (reads s)) ''app'' ''version'' (PStr ''3.0.6'')]] else [])"
  proof (cases "user_choice w")
    case ClickUpdateNow
    have "updaters_constructed (events (show_update_dialog w parent (PDict d1)) s) =
          updaters_constructed (events (slot (start_update w parent))
                                  (s\<lparr>reads := Suc (reads s)\<rparr>))"
      using ClickUpdateNow
      by (simp add: events_def dialog_split updaters_constructed_def split: prod.splits)
    then show ?thesis
      using ClickUpdateNow by (simp add: start_update_constructs)
  next
    case ClickLater
    then show ?thesis
      by (simp add: events_def dialog_split updaters_constructed_def emit_def)
  next
    case CloseDialog
    then show ?thesis
      by (simp add: events_def dialog_split updaters_constructed_def emit_def)
  qed
  show ?thesis
    using same built by simp
qed

subsection \<open>The deferred notification\<close>

lemma main_events:
  "events (main w) s =
     events (bootstrap w) s @
     (case result (bootstrap w) s of
        Inl e \<Rightarrow> []
      | Inr win \<Rightarrow>
          events (check_for_updates w) (final (bootstrap w) s) @
          (case result (check_for_updates w) (final (bootstrap w) s) of
             Inl e \<Rightarrow> []
           | Inr info \<Rightarrow>
               if truthy info then
                 SingleShot 1000 (ShowUpdateDialog win info) #
                 events (app_exec w)
                   ((final (check_for_updates w) (final (bootstrap w) s))
                      \<lparr>timers := timers (final (check_for_updates w) (final (bootstrap w) s)) @
                                  [(1000, ShowUpdateDialog win info)]\<rparr>)
               else events (app_exec w) (final (check_for_updates w) (final (bootstrap w) s))))"
  by (simp add: main_def obs_simps split: sum.splits)

text \<open>
  C2. Take a run of \<open>main\<close> that starts with no timer pending. If the Updater's check
  returns an update information (a truthy value \<open>info\<close>), the events of the run are: some
  events, then \<open>window.show()\<close>, some more events, then the one call of
  \<open>QTimer.singleShot\<close> with a delay of 1000 milliseconds and the closure that shows the
  update dialog for \<open>info\<close> on that window, then the rest. No timer is set and no timer
  fires before that call; no other timer is set after it; and after it the timer fires
  at most once, exactly once if the event loop is still running when the delay has
  passed. If no check returned a truthy value (the check was disabled, found nothing,
  failed or was never reached), no timer is ever set and none fires.
\<close>

theorem notification_once_after_show:
  assumes "timers s = []"
  shows "(\<forall>args info.
            Call (UpdaterCheck args) (Returns info) \<in> set (events (main w) s) \<and> truthy info \<longrightarrow>
            (\<exists>pre win mid post.
               events (main w) s =
                 pre @ [WindowShow win] @ mid @
                 [SingleShot 1000 (ShowUpdateDialog win info)] @ post \<and>
               (\<forall>e \<in> set (pre @ mid). \<not> is_single_shot e \<and> \<not> is_timer_fired e) \<and>
               (\<forall>e \<in> set post. \<not> is_single_shot e) \<and>
               filter is_timer_fired post =
                 (if timer_elapses w then [TimerFired (ShowUpdateDialog win info)] else []))) \<and>
         ((\<forall>args info.
             Call (UpdaterCheck args) (Returns info) \<in> set (events (main w) s) \<longrightarrow>
             \<not> truthy info) \<longrightarrow>
          (\<forall>e \<in> set (events (main w) s). \<not> is_single_shot e \<and> \<not> is_timer_fired e))"
proof -
  let ?sb = "final (bootstrap w) s"
  let ?sc = "final (check_for_updates w) ?sb"
  let ?eb = "events (bootstrap w) s"
  let ?ec = "events (check_for_updates w) ?sb"
  have eb: "\<not> is_single_shot e \<and> \<not> is_timer_fired e \<and> \<not> is_update_check e"
    if "e \<in> set ?eb" for e
    using that bootstrap_emits [of w] by (simp add: emits_def)
  have ec: "\<not> is_single_shot e \<and> \<not> is_timer_fired e" if "e \<in> set ?ec" for e
    using that check_emits [of w] by (simp add: emits_def)
  have tb: "timers ?sb = []"
    using bootstrap_keeps_timers [of w] assms by (simp add: keeps_timers_def)
  have tc: "timers ?sc = []"
    using check_keeps_timers [of w] tb by (simp add: keeps_timers_def)
  have first: "\<exists>pre win mid post.
        events (main w) s =
          pre @ [WindowShow win] @ mid @ [SingleShot 1000 (ShowUpdateDialog win info)] @ post \<and>
        (\<forall>e \<in> set (pre @ mid). \<not> is_single_shot e \<and> \<not> is_timer_fired e) \<and>
        (\<forall>e \<in> set post. \<not> is_single_shot e) \<and>
        filter is_timer_fired post =
          (if timer_elapses w then [TimerFired (ShowUpdateDialog win info)] else [])"
    if ev: "Call (UpdaterCheck args) (Returns info) \<in> set (events (main w) s)"
      and tr: "truthy info" for args info
  proof (cases "result (bootstrap w) s")
    case (Inl x)
    have "Call (UpdaterCheck args) (Returns info) \<in> set ?eb"
      using ev Inl by (simp add: main_events)
    then have "\<not> is_update_check (Call (UpdaterCheck args) (Returns info))"
      using eb by blast
    then show ?thesis by simp
  next
    case (Inr win)
    have not_exec: "Call (UpdaterCheck args) (Returns info) \<notin> set (events (app_exec w) s')"
      for s'
      using app_exec_quiet [of "Call (UpdaterCheck args) (Returns info)" w s'] by auto
    have not_boot: "Call (UpdaterCheck args) (Returns info) \<notin> set ?eb"
      using eb [of "Call (UpdaterCheck args) (Returns info)"] by auto
    have in_check: "Call (UpdaterCheck args) (Returns info) \<in> set ?ec"
      using ev not_boot not_exec Inr
      by (auto simp add: main_events split: sum.splits if_splits)
    have rc: "result (check_for_updates w) ?sb = Inr info"
      using check_truthy_event [OF in_check tr] .
    let ?s2 = "?sc\<lparr>timers := timers ?sc @ [(1000, ShowUpdateDialog win info)]\<rparr>"
    let ?ee = "events (app_exec w) ?s2"
    have whole: "events (main w) s =
        ?eb @ ?ec @ [SingleShot 1000 (ShowUpdateDialog win info)] @ ?ee"
      using Inr rc tr by (simp add: main_events)
    have "WindowShow win \<in> set ?eb"
      using bootstrap_shows_window [of w] Inr by (simp add: shows_window_def)
    then obtain pre m0 where split: "?eb = pre @ WindowShow win # m0"
      by (auto simp add: in_set_conv_decomp)
    have shape: "events (main w) s =
        pre @ [WindowShow win] @ (m0 @ ?ec) @
        [SingleShot 1000 (ShowUpdateDialog win info)] @ ?ee"
      using whole split by simp
    have before: "\<forall>e \<in> set (pre @ (m0 @ ?ec)). \<not> is_single_shot e \<and> \<not> is_timer_fired e"
      using eb ec split by auto
    have after: "\<forall>e \<in> set ?ee. \<not> is_single_shot e"
      using app_exec_quiet [of _ w ?s2] by blast
    have fired: "filter is_timer_fired ?ee =
        (if timer_elapses w then [TimerFired (ShowUpdateDialog win info)] else [])"
      using tc by (simp add: app_exec_fired)
    show ?thesis
      using shape before after fired by blast
  qed
  have second: "\<not> is_single_shot e \<and> \<not> is_timer_fired e"
    if none: "\<forall>args info.
             Call (UpdaterCheck args) (Returns info) \<in> set (events (main w) s) \<longrightarrow>
             \<not> truthy info"
      and e: "e \<in> set (events (main w) s)" for e
  proof (cases "result (bootstrap w) s")
    case (Inl x)
    with e eb show ?thesis by (auto simp add: main_events)
  next
    case (Inr win)
    show ?thesis
    proof (cases "result (check_for_updates w) ?sb")
      case (Inl x)
      with e eb ec Inr show ?thesis by (auto simp add: main_events)
    next
      case rc: (Inr info)
      have falsy: "\<not> truthy info"
      proof
        assume tr: "truthy info"
        obtain args where "Call (UpdaterCheck args) (Returns info) \<in> set ?ec"
          using check_truthy_result [OF rc tr] by blast
        then have "Call (UpdaterCheck args) (Returns info) \<in> set (events (main w) s)"
          using Inr by (simp add: main_events)
        with none tr show False by blast
      qed
      have quiet: "\<not> is_single_shot x \<and> \<not> is_timer_fired x"
        if "x \<in> set (events (app_exec w) ?sc)" for x
      proof -
        have "filter is_timer_fired (events (app_exec w) ?sc) = []"
          using tc by (simp add: app_exec_fired)
        then have "\<not> is_timer_fired x"
          using that by (simp add: filter_empty_conv)
        then show ?thesis
          using app_exec_quiet [OF that] by simp
      qed
      show ?thesis
        using e eb ec quiet Inr rc falsy by (auto simp add: main_events)
    qed
  qed
  show ?thesis
    using first second by blast
qed

theorem notification_once_after_show_witness:
  "timers initial = [] \<and>
   truthy (PDict [(''version'', PStr ''3.1.0'')]) \<and>
   Call (UpdaterCheck [PStr ''3.0.6'', PStr ''https://example.com/updates/mk_processor.json''])
        (Returns (PDict [(''version'', PStr ''3.1.0'')]))
     \<in> set (events (main drifting_world) initial) \<and>
   (\<exists>pre win mid post.
      events (main drifting_world) initial =
        pre @ [WindowShow win] @ mid @
        [SingleShot 1000 (ShowUpdateDialog win (PDict [(''version'', PStr ''3.1.0'')]))] @ post \<and>
      (\<forall>e \<in> set (pre @ mid). \<not> is_single_shot e \<and> \<not> is_timer_fired e) \<and>
      (\<forall>e \<in> set post. \<not> is_single_shot e) \<and>
      filter is_timer_fired post =
        [TimerFired (ShowUpdateDialog win (PDict [(''version'', PStr ''3.1.0'')]))]) \<and>
   filter is_update_check (events (main calm_world) initial) =
     [Call (UpdaterCheck [PStr ''3.0.6'',
                          PStr ''https://example.com/updates/mk_processor.json''])
           (Returns PNone)] \<and>
   filter is_single_shot (events (main calm_world) initial) = [] \<and>
   filter is_timer_fired (events (main calm_world) initial) = []"
proof -
  have t: "timers initial = []"
    by (simp add: initial_def)
  have tr: "truthy (PDict [(''version'', PStr ''3.1.0'')])"
    by simp
  have ev: "Call (UpdaterCheck [PStr ''3.0.6'',
                                PStr ''https://example.com/updates/mk_processor.json''])
                 (Returns (PDict [(''version'', PStr ''3.1.0'')]))
              \<in> set (events (main drifting_world) initial)"
    by (simp add: events_def main_def bootstrap_def app_exec_def check_for_updates_def
          show_update_dialog_def start_update_def prog_defs drifting_world_def
          calm_world_def initial_def lookup_def)
  have el: "timer_elapses drifting_world"
    by (simp add: drifting_world_def calm_world_def)
  have checks: "filter is_update_check (events (main calm_world) initial) =
     [Call (UpdaterCheck [PStr ''3.0.6'',
                          PStr ''https://example.com/updates/mk_processor.json''])
           (Returns PNone)]"
    by (simp add: events_def main_def bootstrap_def app_exec_def check_for_updates_def
          prog_defs calm_world_def initial_def lookup_def)
  have absent: "\<forall>args info. Call (UpdaterCheck args) (Returns info)
                   \<in> set (events (main calm_world) initial) \<longrightarrow> \<not> truthy info"
  proof (intro allI impI)
    fix args info
    assume a: "Call (UpdaterCheck args) (Returns info) \<in> set (events (main calm_world) initial)"
    have "Call (UpdaterCheck args) (Returns info)
            \<in> set (filter is_update_check (events (main calm_world) initial))"
      using a by simp
    then show "\<not> truthy info"
      unfolding checks by auto
  qed
  have first: "\<exists>pre win mid post.
      events (main drifting_world) initial =
        pre @ [WindowShow win] @ mid @
        [SingleShot 1000 (ShowUpdateDialog win (PDict [(''version'', PStr ''3.1.0'')]))] @ post \<and>
      (\<forall>e \<in> set (pre @ mid). \<not> is_single_shot e \<and> \<not> is_timer_fired e) \<and>
      (\<forall>e \<in> set post. \<not> is_single_shot e) \<and>
      filter is_timer_fired post =
        [TimerFired (ShowUpdateDialog win (PDict [(''version'', PStr ''3.1.0'')]))]"
  proof -
    have "\<forall>args info.
            Call (UpdaterCheck args) (Returns info) \<in> set (events (main drifting_world) initial) \<and>
            truthy info \<longrightarrow>
            (\<exists>pre win mid post.
               events (main drifting_world) initial =
                 pre @ [WindowShow win] @ mid @
                 [SingleShot 1000 (ShowUpdateDialog win info)] @ post \<and>
               (\<forall>e \<in> set (pre @ mid). \<not> is_single_shot e \<and> \<not> is_timer_fired e) \<and>
               (\<forall>e \<in> set post. \<not> is_single_shot e) \<and>
               filter is_timer_fired post =
                 (if timer_elapses drifting_world
                  then [TimerFired (ShowUpdateDialog win info)] else []))"
      using notification_once_after_show [OF t, of drifting_world] by (rule conjunct1)
    then have "\<exists>pre win mid post.
               events (main drifting_world) initial =
                 pre @ [WindowShow win] @ mid @
                 [SingleShot 1000
                    (ShowUpdateDialog win (PDict [(''version'', PStr ''3.1.0'')]))] @ post \<and>
               (\<forall>e \<in> set (pre @ mid). \<not> is_single_shot e \<and> \<not> is_timer_fired e) \<and>
               (\<forall>e \<in> set post. \<not> is_single_shot e) \<and>
               filter is_timer_fired post =
                 (if timer_elapses drifting_world
                  then [TimerFired (ShowUpdateDialog win (PDict [(''version'', PStr ''3.1.0'')]))]
                  else [])"
      using ev tr by blast
    then show ?thesis
      using el by simp
  qed
  have second: "\<forall>e \<in> set (events (main calm_world) initial).
                  \<not> is_single_shot e \<and> \<not> is_timer_fired e"
    using conjunct2 [OF notification_once_after_show [OF t, of calm_world]] absent
    by (rule mp)
  show ?thesis
    using t tr ev first checks second by (simp add: filter_empty_conv)
qed

subsection \<open>The process exit status\<close>

lemma result_try_except:
  "result (try_except m h) s =
     (case result m s of
        Inl (Exception msg) \<Rightarrow> result (h msg) (final m s)
      | Inl (SystemExit n) \<Rightarrow> Inl (SystemExit n)
      | Inr x \<Rightarrow> Inr x)"
  by (simp add: obs_defs try_except_def split: prod.splits sum.splits exc.splits)

lemma result_try_except_all:
  "result (try_except_all m h) s =
     (case result m s of Inl e \<Rightarrow> result (h e) (final m s) | Inr x \<Rightarrow> Inr x)"
  by (simp add: obs_defs try_except_all_def split: prod.splits sum.splits)

lemma final_try_except_all:
  "final (try_except_all m h) s =
     (case result m s of Inl e \<Rightarrow> final (h e) (final m s) | Inr x \<Rightarrow> final m s)"
  by (simp add: obs_defs try_except_all_def split: prod.splits sum.splits)

lemma obs_sys_exit:
  "events (sys_exit n) s = []" "result (sys_exit n) s = Inl (SystemExit n)"
  "final (sys_exit n) s = s"
  by (simp_all add: sys_exit_def obs_throw)


lemmas try_simps = events_try_except result_try_except final_try_except
  events_try_except_all result_try_except_all final_try_except_all obs_sys_exit

lemma no_exit_ret: "no_exit (ret x)"
  by (simp add: no_exit_def obs_simps)

lemma no_exit_emit: "no_exit (emit e)"
  by (simp add: no_exit_def obs_simps)

lemma no_exit_call: "no_exit (call w c)"
  by (simp add: no_exit_def obs_simps split: outcome.splits)

lemma no_exit_config_get: "no_exit (config_get w a b d)"
  by (simp add: no_exit_def obs_simps)

lemma no_exit_py_expanduser: "no_exit (py_expanduser w v)"
  by (simp add: no_exit_def result_def py_expanduser_def ret_def throw_def split: pyval.splits)

lemma no_exit_single_shot: "no_exit (single_shot ms cb)"
  by (simp add: no_exit_def obs_simps)

lemma no_exit_bnd: "no_exit m \<Longrightarrow> (\<And>x. no_exit (f x)) \<Longrightarrow> no_exit (bnd m f)"
  by (auto simp add: no_exit_def result_bnd split: sum.splits)

lemma no_exit_try_except: "no_exit m \<Longrightarrow> (\<And>x. no_exit (h x)) \<Longrightarrow> no_exit (try_except m h)"
  by (auto simp add: no_exit_def result_try_except split: sum.splits exc.splits)

lemma no_exit_if: "no_exit a \<Longrightarrow> no_exit b \<Longrightarrow> no_exit (if c then a else b)"
  by simp

lemma no_exit_app_exec: "no_exit (app_exec w)"
  by (simp add: no_exit_def app_exec_result)

lemmas no_exit_intros = no_exit_ret no_exit_emit no_exit_call no_exit_config_get
  no_exit_py_expanduser no_exit_single_shot no_exit_bnd no_exit_try_except no_exit_if
  no_exit_app_exec

lemma no_exit_main: "no_exit (main w)"
  unfolding main_def bootstrap_def check_for_updates_def by (intro no_exit_intros)

lemma script_result:
  assumes "is_main w"
  shows "result (script w) s =
    (case respond w ImportPyQt5 of
       Raises m \<Rightarrow> Inl (Exception m)
     | Returns a \<Rightarrow>
        (case respond w ImportModules of
           Raises m \<Rightarrow>
             (if pyqt5_in_sys_modules w then
                (case respond w (CriticalDialog ''Module Import Error''
                                   (''Failed to import required modules: '' @ m)) of
                   Raises m' \<Rightarrow> Inl (Exception m')
                 | Returns d \<Rightarrow> Inl (SystemExit 1))
              else Inl (SystemExit 1))
         | Returns b \<Rightarrow>
             (case result (main w) s of
                Inr rc \<Rightarrow> Inl (SystemExit rc)
              | Inl (Exception m) \<Rightarrow> Inl (SystemExit 1)
              | Inl (SystemExit n) \<Rightarrow> Inl (SystemExit n))))"
  using assms
  by (simp add: script_def obs_simps try_simps split: outcome.splits sum.splits exc.splits)

lemma main_result:
  "result (main w) s =
     (case result (bootstrap w) s of
        Inl e \<Rightarrow> Inl e
      | Inr win \<Rightarrow>
          (case result (check_for_updates w) (final (bootstrap w) s) of
             Inl e \<Rightarrow> Inl e
           | Inr info \<Rightarrow> Inr (exec_rc w)))"
  by (simp add: main_def obs_simps app_exec_result split: sum.splits)

lemma main_result_iff:
  "result (main w) s = Inr rc \<longleftrightarrow> (\<exists>pre. events (main w) s = pre @ [AppExec rc])"
proof -
  let ?sb = "final (bootstrap w) s"
  let ?eb = "events (bootstrap w) s"
  let ?ec = "events (check_for_updates w) ?sb"
  have eb: "AppExec rc \<notin> set ?eb"
    using emitsD [OF bootstrap_emits, of "AppExec rc" w s] by auto
  have ec: "AppExec rc \<notin> set ?ec"
    using emitsD [OF check_emits, of "AppExec rc" w ?sb] by auto
  show ?thesis
  proof (cases "result (bootstrap w) s")
    case (Inl x)
    have "events (main w) s \<noteq> pre @ [AppExec rc]" for pre
      using eb Inl by (auto simp add: main_events)
    then show ?thesis using Inl by (simp add: main_result)
  next
    case (Inr win)
    show ?thesis
    proof (cases "result (check_for_updates w) ?sb")
      case (Inl x)
      have "events (main w) s \<noteq> pre @ [AppExec rc]" for pre
      proof
        assume "events (main w) s = pre @ [AppExec rc]"
        then have "AppExec rc \<in> set (?eb @ ?ec)"
          using Inr Inl by (simp add: main_events)
        then show False using eb ec by simp
      qed
      then show ?thesis using Inr Inl by (simp add: main_result)
    next
      case rc: (Inr info)
      let ?sc = "final (check_for_updates w) ?sb"
      let ?s2 = "?sc\<lparr>timers := timers ?sc @ [(1000, ShowUpdateDialog win info)]\<rparr>"
      have tail: "\<exists>ys. events (app_exec w) s' = ys @ [AppExec (exec_rc w)]" for s'
        by (simp add: app_exec_events)
      obtain xs where xs: "events (main w) s = xs @ [AppExec (exec_rc w)]"
      proof (cases "truthy info")
        case True
        obtain ys where "events (app_exec w) ?s2 = ys @ [AppExec (exec_rc w)]"
          using tail by blast
        then have "events (main w) s =
            (?eb @ ?ec @ SingleShot 1000 (ShowUpdateDialog win info) # ys) @
            [AppExec (exec_rc w)]"
          using Inr rc True by (simp add: main_events)
        then show ?thesis by (rule that)
      next
        case False
        obtain ys where "events (app_exec w) ?sc = ys @ [AppExec (exec_rc w)]"
          using tail by blast
        then have "events (main w) s = (?eb @ ?ec @ ys) @ [AppExec (exec_rc w)]"
          using Inr rc False by (simp add: main_events)
        then show ?thesis by (rule that)
      qed
      have res: "result (main w) s = Inr (exec_rc w)"
        using Inr rc by (simp add: main_result)
      show ?thesis
        using xs res by auto
    qed
  qed
qed

lemma script_events_failed_main:
  assumes "is_main w"
      and "respond w ImportPyQt5 = Returns a"
      and "respond w ImportModules = Returns b"
      and "result (main w) s = Inl (Exception m)"
  shows "events (script w) s =
           [Call ImportPyQt5 (Returns a), Call ImportModules (Returns b)] @
           events (main w) s @
           [Print (''Unhandled application error: '' @ m),
            PrintTraceback,
            Call (CriticalDialog ''Application Error'' (''An unhandled error occurred: '' @ m))
              (respond w (CriticalDialog ''Application Error''
                            (''An unhandled error occurred: '' @ m)))]"
  using assms
  by (simp add: script_def obs_simps try_simps split: outcome.splits sum.splits exc.splits)

lemma script_status_import_failed:
  assumes "is_main w"
      and "(\<exists>m. respond w ImportPyQt5 = Raises m) \<or> (\<exists>m. respond w ImportModules = Raises m)"
  shows "exit_status (result (script w) s) = 1"
proof (cases "respond w ImportPyQt5")
  case (Raises m)
  then show ?thesis by (simp add: script_result [OF assms(1)])
next
  case a: (Returns a)
  then obtain m where m: "respond w ImportModules = Raises m"
    using assms(2) by auto
  show ?thesis
  proof (cases "pyqt5_in_sys_modules w")
    case False
    then show ?thesis using a m by (simp add: script_result [OF assms(1)])
  next
    case True
    then show ?thesis using a m
      by (cases "respond w (CriticalDialog ''Module Import Error''
                             (''Failed to import required modules: '' @ m))")
         (simp_all add: script_result [OF assms(1)])
  qed
qed

lemma script_result_main:
  assumes "is_main w"
      and "respond w ImportPyQt5 = Returns a"
      and "respond w ImportModules = Returns b"
  shows "result (main w) s = Inl (Exception m) \<Longrightarrow> result (script w) s = Inl (SystemExit 1)"
    and "result (main w) s = Inr rc \<Longrightarrow> result (script w) s = Inl (SystemExit rc)"
  using assms(2,3) by (simp_all add: script_result [OF assms(1)])

lemma main_returns_iff:
  "(\<exists>pre rc. events (main w) s = pre @ [AppExec rc] \<and> rc mod 256 = 0) \<longleftrightarrow>
   (\<exists>rc. result (main w) s = Inr rc \<and> rc mod 256 = 0)"
proof -
  have "(\<exists>pre rc. events (main w) s = pre @ [AppExec rc] \<and> rc mod 256 = 0) \<longleftrightarrow>
        (\<exists>rc. (\<exists>pre. events (main w) s = pre @ [AppExec rc]) \<and> rc mod 256 = 0)"
    by auto
  then show ?thesis
    by (simp only: main_result_iff [symmetric])
qed

lemma script_status_zero:
  assumes "is_main w"
  shows "exit_status (result (script w) s) = 0 \<longleftrightarrow>
           (\<exists>a. respond w ImportPyQt5 = Returns a) \<and>
           (\<exists>b. respond w ImportModules = Returns b) \<and>
           (\<exists>rc. result (main w) s = Inr rc \<and> rc mod 256 = 0)"
proof (cases "respond w ImportPyQt5")
  case (Raises m)
  then show ?thesis
    using script_status_import_failed [OF assms, of s] by auto
next
  case a: (Returns a)
  show ?thesis
  proof (cases "respond w ImportModules")
    case (Raises m)
    then show ?thesis
      using script_status_import_failed [OF assms, of s] by auto
  next
    case b: (Returns b)
    show ?thesis
    proof (cases "result (main w) s")
      case (Inr rc)
      then show ?thesis
        using script_result_main(2) [OF assms a b, of s rc] a b by simp
    next
      case (Inl e)
      show ?thesis
      proof (cases e)
        case (Exception m)
        then show ?thesis
          using script_result_main(1) [OF assms a b, of s m] Inl by simp
      next
        case (SystemExit n)
        then show ?thesis
          using no_exit_main [of w] Inl by (simp add: no_exit_def)
      qed
    qed
  qed
qed

text \<open>
  C7, as stated, fails in one direction: the exit status 0 does not occur exactly when
  the event loop terminates normally. The wrapper hands the value of \<open>app.exec_()\<close> to
  \<open>sys.exit\<close> as it is, and the operating system keeps its low eight bits. In
  \<open>wrapping_world\<close> both imports succeed, the event loop is left with the return code 256
  (through \<open>QApplication.exit(256)\<close>, not a normal termination), \<open>main\<close> returns 256, the
  wrapper raises \<open>SystemExit(256)\<close>, and the process ends with status 0.
\<close>

theorem exit_status_counterexample:
  "is_main wrapping_world \<and>
   respond wrapping_world ImportPyQt5 = Returns (PObj ''ok'') \<and>
   respond wrapping_world ImportModules = Returns (PObj ''ok'') \<and>
   last (events (main wrapping_world) initial) = AppExec 256 \<and>
   result (main wrapping_world) initial = Inr 256 \<and>
   result (script wrapping_world) initial = Inl (SystemExit 256) \<and>
   exit_status (result (script wrapping_world) initial) = 0"
  by (simp add: obs_defs script_def main_def bootstrap_def app_exec_def
        check_for_updates_def prog_defs wrapping_world_def calm_world_def initial_def
        lookup_def)

text \<open>
  C7, amended. For the module run as the program (\<open>__name__ == "__main__"\<close>):
  \<^item> if an import fails, the exit status is 1;
  \<^item> if the imports succeed and an exception \<open>m\<close> leaves \<open>main\<close>, the wrapper prints the
    error and the traceback and attempts the error dialog, and that attempt is its last
    event whatever it does: also when the dialog raises, the failure is swallowed (no
    exception leaves the wrapper), the process is left through \<open>sys.exit(1)\<close> and the exit
    status is 1;
  \<^item> if \<open>main\<close> returns \<open>rc\<close>, the value of \<open>app.exec_()\<close>, the process is left through
    \<open>sys.exit(rc)\<close> and the exit status is \<open>rc mod 256\<close>;
  \<^item> so the exit status is 0 exactly when the imports succeed and the events of \<open>main\<close>
    end with the event loop returning a multiple of 256: 0, the normal termination,
    among them.
\<close>

theorem exit_status_of_process:
  assumes "is_main w"
  shows "((\<exists>m. respond w ImportPyQt5 = Raises m) \<or> (\<exists>m. respond w ImportModules = Raises m) \<longrightarrow>
             exit_status (result (script w) s) = 1) \<and>
         (\<forall>a b. respond w ImportPyQt5 = Returns a \<and> respond w ImportModules = Returns b \<longrightarrow>
             (\<forall>m. result (main w) s = Inl (Exception m) \<longrightarrow>
                  events (script w) s =
                    [Call ImportPyQt5 (Returns a), Call ImportModules (Returns b)] @
                    events (main w) s @
                    [Print (''Unhandled application error: '' @ m),
                     PrintTraceback,
                     Call (CriticalDialog ''Application Error''
                             (''An unhandled error occurred: '' @ m))
                       (respond w (CriticalDialog ''Application Error''
                                     (''An unhandled error occurred: '' @ m)))] \<and>
                  result (script w) s = Inl (SystemExit 1) \<and>
                  exit_status (result (script w) s) = 1) \<and>
             (\<forall>rc. result (main w) s = Inr rc \<longrightarrow>
                  result (script w) s = Inl (SystemExit rc) \<and>
                  exit_status (result (script w) s) = rc mod 256)) \<and>
         (exit_status (result (script w) s) = 0 \<longleftrightarrow>
             (\<exists>a. respond w ImportPyQt5 = Returns a) \<and>
             (\<exists>b. respond w ImportModules = Returns b) \<and>
             (\<exists>pre rc. events (main w) s = pre @ [AppExec rc] \<and> rc mod 256 = 0))"
proof (intro conjI allI impI)
  assume "(\<exists>m. respond w ImportPyQt5 = Raises m) \<or> (\<exists>m. respond w ImportModules = Raises m)"
  then show "exit_status (result (script w) s) = 1"
    by (rule script_status_import_failed [OF assms])
next
  fix a b m
  assume ok: "respond w ImportPyQt5 = Returns a \<and> respond w ImportModules = Returns b"
    and failed: "result (main w) s = Inl (Exception m)"
  note a = ok [THEN conjunct1] and b = ok [THEN conjunct2]
  show "events (script w) s =
          [Call ImportPyQt5 (Returns a), Call ImportModules (Returns b)] @
          events (main w) s @
          [Print (''Unhandled application error: '' @ m),
           PrintTraceback,
           Call (CriticalDialog ''Application Error''
                   (''An unhandled error occurred: '' @ m))
             (respond w (CriticalDialog ''Application Error''
                           (''An unhandled error occurred: '' @ m)))]"
    by (rule script_events_failed_main [OF assms a b failed])
  show exit: "result (script w) s = Inl (SystemExit 1)"
    by (rule script_result_main(1) [OF assms a b failed])
  show "exit_status (result (script w) s) = 1"
    unfolding exit by simp
next
  fix a b rc
  assume ok: "respond w ImportPyQt5 = Returns a \<and> respond w ImportModules = Returns b"
    and returned: "result (main w) s = Inr rc"
  note a = ok [THEN conjunct1] and b = ok [THEN conjunct2]
  show exit: "result (script w) s = Inl (SystemExit rc)"
    by (rule script_result_main(2) [OF assms a b returned])
  show "exit_status (result (script w) s) = rc mod 256"
    unfolding exit by simp
next
  show "exit_status (result (script w) s) = 0 \<longleftrightarrow>
             (\<exists>a. respond w ImportPyQt5 = Returns a) \<and>
             (\<exists>b. respond w ImportModules = Returns b) \<and>
             (\<exists>pre rc. events (main w) s = pre @ [AppExec rc] \<and> rc mod 256 = 0)"
    unfolding main_returns_iff by (rule script_status_zero [OF assms])
qed

theorem exit_status_of_process_witness:
  "is_main calm_world \<and>
   (\<exists>pre rc. events (main calm_world) initial = pre @ [AppExec rc] \<and> rc mod 256 = 0) \<and>
   exit_status (result (script calm_world) initial) = 0 \<and>
   is_main missing_module_world \<and>
   respond missing_module_world ImportModules = Raises ''No module named app.config'' \<and>
   exit_status (result (script missing_module_world) initial) = 1 \<and>
   is_main headless_world \<and>
   respond headless_world ImportPyQt5 = Returns (PObj ''ok'') \<and>
   respond headless_world ImportModules = Returns (PObj ''ok'') \<and>
   result (main headless_world) initial = Inl (Exception ''plugin failed'') \<and>
   respond headless_world
       (CriticalDialog ''Application Error'' ''An unhandled error occurred: plugin failed'')
     = Raises ''cannot connect to display'' \<and>
   events (script headless_world) initial =
     [Call ImportPyQt5 (Returns (PObj ''ok'')), Call ImportModules (Returns (PObj ''ok''))] @
     events (main headless_world) initial @
     [Print ''Unhandled application error: plugin failed'',
      PrintTraceback,
      Call (CriticalDialog ''Application Error''
              ''An unhandled error occurred: plugin failed'')
        (Raises ''cannot connect to display'')] \<and>
   result (script headless_world) initial = Inl (SystemExit 1) \<and>
   exit_status (result (script headless_world) initial) = 1 \<and>
   is_main wrapping_world \<and>
   result (main wrapping_world) initial = Inr 256 \<and>
   result (script wrapping_world) initial = Inl (SystemExit 256) \<and>
   exit_status (result (script wrapping_world) initial) = 0"
proof -
  have calm: "is_main calm_world"
    by (simp add: calm_world_def)
  have calm_imports: "respond calm_world ImportPyQt5 = Returns (PObj ''ok'')"
    "respond calm_world ImportModules = Returns (PObj ''ok'')"
    by (simp_all add: calm_world_def)
  have "events (main calm_world) initial =
      butlast (events (main calm_world) initial) @ [AppExec 0] \<and> (0::int) mod 256 = 0"
    by (simp add: events_def main_def bootstrap_def app_exec_def check_for_updates_def
          prog_defs calm_world_def initial_def lookup_def)
  then have calm_loop:
    "\<exists>pre rc. events (main calm_world) initial = pre @ [AppExec rc] \<and> rc mod 256 = 0"
    by (intro exI)
  have calm_status: "exit_status (result (script calm_world) initial) = 0"
    using conjunct2 [OF conjunct2 [OF exit_status_of_process [OF calm, of initial]]]
          calm_imports calm_loop
    by simp
  have missing: "is_main missing_module_world"
    "respond missing_module_world ImportModules = Raises ''No module named app.config''"
    by (simp_all add: missing_module_world_def calm_world_def)
  have missing_status: "exit_status (result (script missing_module_world) initial) = 1"
    using conjunct1 [OF exit_status_of_process [OF missing(1), of initial]] missing(2)
    by simp
  have headless: "is_main headless_world"
    "respond headless_world ImportPyQt5 = Returns (PObj ''ok'')"
    "respond headless_world ImportModules = Returns (PObj ''ok'')"
    "respond headless_world
       (CriticalDialog ''Application Error'' ''An unhandled error occurred: plugin failed'')
     = Raises ''cannot connect to display''"
    by (simp_all add: headless_world_def calm_world_def)
  have headless_main: "result (main headless_world) initial = Inl (Exception ''plugin failed'')"
    by (simp add: result_def main_def bootstrap_def prog_defs headless_world_def
          calm_world_def initial_def lookup_def)
  note headless_run =
    conjunct1 [OF conjunct2 [OF exit_status_of_process [OF headless(1), of initial]],
      THEN spec, THEN spec, THEN mp, OF conjI [OF headless(2,3)]]
  have headless_exit:
    "events (script headless_world) initial =
       [Call ImportPyQt5 (Returns (PObj ''ok'')), Call ImportModules (Returns (PObj ''ok''))] @
       events (main headless_world) initial @
       [Print ''Unhandled application error: plugin failed'',
        PrintTraceback,
        Call (CriticalDialog ''Application Error''
                ''An unhandled error occurred: plugin failed'')
          (Raises ''cannot connect to display'')] \<and>
     result (script headless_world) initial = Inl (SystemExit 1) \<and>
     exit_status (result (script headless_world) initial) = 1"
    using headless_run [THEN conjunct1, THEN spec, THEN mp, OF headless_main] headless(4)
    by simp
  have wrapping: "is_main wrapping_world"
    "respond wrapping_world ImportPyQt5 = Returns (PObj ''ok'')"
    "respond wrapping_world ImportModules = Returns (PObj ''ok'')"
    by (simp_all add: wrapping_world_def calm_world_def)
  have wrapping_main: "result (main wrapping_world) initial = Inr 256"
    by (simp add: result_def main_def bootstrap_def app_exec_def check_for_updates_def
          prog_defs wrapping_world_def calm_world_def initial_def lookup_def)
  note wrapping_run =
    conjunct1 [OF conjunct2 [OF exit_status_of_process [OF wrapping(1), of initial]],
      THEN spec, THEN spec, THEN mp, OF conjI [OF wrapping(2,3)]]
  have wrapping_exit:
    "result (script wrapping_world) initial = Inl (SystemExit 256) \<and>
     exit_status (result (script wrapping_world) initial) = 0"
    using wrapping_run [THEN conjunct2, THEN spec, THEN mp, OF wrapping_main]
    by simp
  show ?thesis
    using calm calm_loop calm_status missing missing_status headless headless_main
          headless_exit wrapping(1) wrapping_main wrapping_exit
    by simp
qed

subsection \<open>The bootstrap\<close>


text \<open>
  Only the creation of the directory is guarded. The steps after it are not: a failure
  of plugin loading is a fault of its own and fatal by design. In \<open>broken_plugins_world\<close>
  the directory cannot be created and, independently, loading the plugins raises: the
  warning is shown, the bootstrap goes on, and \<open>main\<close> is then left by the exception of the
  plugin manager, before a shell is constructed.
\<close>

lemma plugin_failure_is_fatal:
  "\<not> path_exists broken_plugins_world ''~/GoogleDriveMount/Web/'' \<and>
   main broken_plugins_world initial =
     ([QApplicationNew,
       SetApplicationName ''MK Processor'',
       SetApplicationVersion ''3.0.6'',
       Call SetupExceptionHandling (Returns (PObj ''ok'')),
       ConfigGet ''google_drive'' ''web_folder'' (PStr ''~/GoogleDriveMount/Web/'')
         (PStr ''~/GoogleDriveMount/Web/''),
       Call (Makedirs ''~/GoogleDriveMount/Web/'') (Raises ''Permission denied''),
       MessageBoxWarning PNone ''Directory Warning''
         (''Could not create web folder at ~/GoogleDriveMount/Web/.\<newline>\<newline>'' @
          ''Error: Permission denied\<newline>\<newline>'' @
          ''The application will continue, but functionality may be limited.''),
       Call PluginManagerNew (Returns (PObj ''ok'')),
       Call (LoadPlugins (PObj ''ok'')) (Raises ''plugin failed'')],
      \<lparr>reads = 1, timers = []\<rparr>,
      Inl (Exception ''plugin failed'')) \<and>
   filter is_window_show (events (main broken_plugins_world) initial) = []"
  by (simp add: events_def main_def bootstrap_def prog_defs broken_plugins_world_def
        calm_world_def initial_def lookup_def directory_warning_def)




end
